theory Spec2Isabelle
  imports Main
begin

section \<open>Errors and the result type\<close>

text \<open>
  Every exception the two source files can raise is a value of \<open>error\<close>; a call that
  raises returns \<open>Inl e\<close>, a call that returns \<open>v\<close> gives \<open>Inr v\<close>.
  \<open>DataError\<close> stands for whatever a dataset constructor raises.
\<close>

datatype error =
    AssertionError
  | IndexError
  | KeyError
  | ValueError
  | AttributeError
  | NameError
  | DataError

definition ebind :: "error + 'a \<Rightarrow> ('a \<Rightarrow> error + 'b) \<Rightarrow> error + 'b" where
  "ebind r f = (case r of Inl e \<Rightarrow> Inl e | Inr v \<Rightarrow> f v)"

section \<open>tabe/data\_provider/dataset\_loader.py\<close>

subsection \<open>The run configuration\<close>

text \<open>
  The attributes of \<open>configs\<close> that the two files read. \<open>embed\<close> and \<open>inverse\<close>
  are constants of HOL, so these two fields carry the suffix \<open>_cfg\<close>.
\<close>

record configs =
  data :: string
  embed_cfg :: string
  batch_size :: int
  freq :: string
  task_name :: string
  root_path :: string
  data_path :: string
  seq_len :: int
  label_len :: int
  pred_len :: int
  features :: string
  target :: string
  num_workers :: int
  seasonal_patterns :: string
  inverse_cfg :: bool

subsection \<open>The registry \<open>data_dict\<close>\<close>

datatype Data_class = Dataset_TABE_File | Dataset_TABE_Online

definition data_dict :: "string \<Rightarrow> Data_class option" where
  "data_dict k =
     (if k = ''TABE_FILE'' then Some Dataset_TABE_File
      else if k = ''TABE_ONLINE'' then Some Dataset_TABE_Online
      else None)"

subsection \<open>Constructor calls and objects\<close>

text \<open>
  The three keyword-argument lists with which \<open>_data_provider\<close> calls the dataset
  class, one per task branch, in the order of the source.
\<close>

datatype ctor_args =
    Anomaly_args configs string int string
      \<comment> \<open>\<open>args, root_path, win_size, flag\<close>\<close>
  | Classification_args configs string string
      \<comment> \<open>\<open>args, root_path, flag\<close>\<close>
  | Forecast_args configs string string string "int list" string string int string string
      \<comment> \<open>\<open>args, root_path, data_path, flag, size, features, target, timeenc, freq,
          seasonal_patterns\<close>\<close>

text \<open>
  An object is a value together with its identity: Python's \<open>is\<close> compares the first
  component. Fresh identities come from a counter.
\<close>

type_synonym 'x obj = "nat \<times> 'x"

definition the_obj :: "'x obj \<Rightarrow> 'x" where
  "the_obj ob = snd ob"

text \<open>
  The arguments \<open>DataLoader(...)\<close> is built with. \<open>collate_max_len\<close> is \<open>Some n\<close>
  when the classification branch passes its own \<open>collate_fn\<close> with \<open>max_len = n\<close>.
\<close>

record 'd DataLoader =
  dataset :: "'d obj"
  dl_batch_size :: int
  shuffle :: bool
  dl_num_workers :: int
  drop_last :: bool
  collate_max_len :: "int option"

text \<open>
  The call \<open>DataLoader(data_set, batch_size=..., shuffle=..., num_workers=...,
  drop_last=..., collate_fn=...)\<close>: torch raises \<open>ValueError\<close> for a negative
  number of workers and for a batch size that is not positive.
\<close>

definition new_DataLoader ::
  "'d obj \<Rightarrow> int \<Rightarrow> bool \<Rightarrow> int \<Rightarrow> bool \<Rightarrow> int option \<Rightarrow> error + 'd DataLoader" where
  "new_DataLoader data_set bsz shuffle_flag n_workers drop_last_flag collate =
     (if n_workers < 0 then Inl ValueError
      else if bsz \<le> 0 then Inl ValueError
      else Inr \<lparr>dataset = data_set, dl_batch_size = bsz, shuffle = shuffle_flag,
                 dl_num_workers = n_workers, drop_last = drop_last_flag,
                 collate_max_len = collate\<rparr>)"

subsection \<open>\<open>_data_provider\<close>\<close>

text \<open>
  The dataset classes are not part of the two files: \<open>Data\<close> is the constructor call
  \<open>data_dict[configs.data](...)\<close>, a parameter that may raise. \<open>fresh\<close> is the next
  unused object identity. An unknown \<open>configs.data\<close> is a \<open>KeyError\<close>.
\<close>

definition data_provider ::
  "(Data_class \<Rightarrow> ctor_args \<Rightarrow> error + 'd) \<Rightarrow> nat \<Rightarrow> configs \<Rightarrow> string \<Rightarrow> bool
     \<Rightarrow> error + ('d obj \<times> 'd DataLoader obj)" where
  "data_provider Data fresh cfg flag step_by_step =
     (case data_dict (data cfg) of
        None \<Rightarrow> Inl KeyError
      | Some cls \<Rightarrow>
          let timeenc = (if embed_cfg cfg \<noteq> ''timeF'' then 0 else 1 :: int);
              shuffle_flag =
                (if flag = ''test'' \<or> flag = ''TEST'' \<or> step_by_step then False else True);
              drop_last0 = False;
              bsz = (if \<not> step_by_step then batch_size cfg else 1)
          in
          if task_name cfg = ''anomaly_detection'' then
            ebind (Data cls (Anomaly_args cfg (root_path cfg) (seq_len cfg) flag))
              (\<lambda>data_set.
                 ebind (new_DataLoader (fresh, data_set) bsz shuffle_flag (num_workers cfg)
                          False None)
                   (\<lambda>data_loader. Inr ((fresh, data_set), (Suc fresh, data_loader))))
          else if task_name cfg = ''classification'' then
            ebind (Data cls (Classification_args cfg (root_path cfg) flag))
              (\<lambda>data_set.
                 ebind (new_DataLoader (fresh, data_set) bsz shuffle_flag (num_workers cfg)
                          False (Some (seq_len cfg)))
                   (\<lambda>data_loader. Inr ((fresh, data_set), (Suc fresh, data_loader))))
          else
            ebind (Data cls (Forecast_args cfg (root_path cfg) (data_path cfg) flag
                     [seq_len cfg, label_len cfg, pred_len cfg] (features cfg) (target cfg)
                     timeenc (freq cfg) (seasonal_patterns cfg)))
              (\<lambda>data_set.
                 ebind (new_DataLoader (fresh, data_set) bsz shuffle_flag (num_workers cfg)
                          (if data cfg = ''m4'' then False else drop_last0) None)
                   (\<lambda>data_loader. Inr ((fresh, data_set), (Suc fresh, data_loader)))))"

subsection \<open>\<open>get_data_provider\<close> and the module-level caches\<close>

text \<open>
  The two dictionaries \<open>_cache_dataset\<close> and \<open>_cache_dataloader\<close> and the identity
  counter are the state. The call returns the pair and the new state.
\<close>

record 'd provider_state =
  cache_dataset :: "string \<rightharpoonup> 'd obj"
  cache_dataloader :: "string \<rightharpoonup> 'd DataLoader obj"
  next_id :: nat

definition cache_key :: "string \<Rightarrow> bool \<Rightarrow> string" where
  "cache_key flag step_by_step = (if step_by_step then flag @ ''_stb'' else flag)"

definition get_data_provider ::
  "(Data_class \<Rightarrow> ctor_args \<Rightarrow> error + 'd) \<Rightarrow> 'd provider_state \<Rightarrow> configs \<Rightarrow> string
     \<Rightarrow> bool \<Rightarrow> error + (('d obj \<times> 'd DataLoader obj) \<times> 'd provider_state)" where
  "get_data_provider Data st cfg flag step_by_step =
     (let key = cache_key flag step_by_step in
      ebind
        (if cache_dataset st key = None then
           ebind (data_provider Data (next_id st) cfg flag step_by_step)
             (\<lambda>(ds, dl).
                Inr (st\<lparr>cache_dataset := (cache_dataset st)(key \<mapsto> ds),
                        cache_dataloader := (cache_dataloader st)(key \<mapsto> dl),
                        next_id := next_id st + 2\<rparr>))
         else Inr st)
        (\<lambda>st'.
           case cache_dataset st' key of
             None \<Rightarrow> Inl KeyError
           | Some ds \<Rightarrow>
               (case cache_dataloader st' key of
                  None \<Rightarrow> Inl KeyError
                | Some dl \<Rightarrow> Inr ((ds, dl), st'))))"

section \<open>numpy and tensor operations used by tabe/models/tabe.py\<close>

text \<open>
  A batch tensor is a nested list (batch, step, feature). A 2-D array carries its number
  of columns, so that an array with no rows still has a width, and \<open>a[:, -1]\<close> on an
  array of width 0 raises as numpy does. Values are of any type \<open>'v\<close>: the code moves
  them and never computes with them, apart from \<open>np.zeros\<close>.
\<close>

type_synonym 'v tensor3 = "'v list list list"

record 'v batch =
  batch_x :: "'v tensor3"
  batch_y :: "'v tensor3"
  batch_x_mark :: "'v tensor3"
  batch_y_mark :: "'v tensor3"

record 'v array2 =
  ncols :: nat
  rows :: "'v list list"

text \<open>\<open>xs[k:]\<close> for a Python integer \<open>k\<close>: a negative \<open>k\<close> counts from the end.\<close>

definition py_slice_from :: "int \<Rightarrow> 'a list \<Rightarrow> 'a list" where
  "py_slice_from k xs =
     (if 0 \<le> k then drop (nat k) xs else drop (length xs - nat (- k)) xs)"

text \<open>\<open>a[:, -1]\<close>\<close>

definition col_last :: "'v array2 \<Rightarrow> error + 'v list" where
  "col_last a = (if ncols a = 0 then Inl IndexError else Inr (map last (rows a)))"

text \<open>\<open>a[k:, -1]\<close>\<close>

definition slice_col_last :: "int \<Rightarrow> 'v array2 \<Rightarrow> error + 'v list" where
  "slice_col_last k a = col_last (a\<lparr>rows := py_slice_from k (rows a)\<rparr>)"

text \<open>\<open>t[0, -1, -1]\<close> on a batch tensor\<close>

definition truth_of :: "'v tensor3 \<Rightarrow> error + 'v" where
  "truth_of t =
     (case t of
        [] \<Rightarrow> Inl IndexError
      | w # _ \<Rightarrow>
          if w = [] then Inl IndexError
          else if last w = [] then Inl IndexError
          else Inr (last (last w)))"

text \<open>
  \<open>np.empty_like(y)\<close> and \<open>np.empty((r, c))\<close> return memory that was never written.
  What it holds is a parameter: \<open>junk i\<close> is the content of cell \<open>i\<close>.
\<close>

definition np_empty_like :: "(nat \<Rightarrow> 'v) \<Rightarrow> 'w list \<Rightarrow> 'v list" where
  "np_empty_like junk y = map junk [0..<length y]"

definition np_empty2 :: "(nat \<Rightarrow> nat \<Rightarrow> 'v) \<Rightarrow> nat \<Rightarrow> nat \<Rightarrow> 'v array2" where
  "np_empty2 junk r c = \<lparr>ncols = c, rows = map (\<lambda>i. map (junk i) [0..<c]) [0..<r]\<rparr>"

definition np_zeros :: "nat \<Rightarrow> nat \<Rightarrow> ('v::zero) array2" where
  "np_zeros n f = \<lparr>ncols = f, rows = replicate n (replicate f 0)\<rparr>"

text \<open>
  Assigning a 1-D value to a 1-D slice of length \<open>n\<close>: the lengths agree, or the value
  has one element and is repeated, or numpy raises \<open>ValueError\<close>.
\<close>

definition np_broadcast :: "nat \<Rightarrow> 'v list \<Rightarrow> error + 'v list" where
  "np_broadcast n v =
     (if length v = n then Inr v
      else if length v = 1 then Inr (replicate n (hd v))
      else Inl ValueError)"

text \<open>\<open>xs[t] = v\<close>\<close>

definition assign_elem :: "'v list \<Rightarrow> nat \<Rightarrow> 'v \<Rightarrow> error + 'v list" where
  "assign_elem xs t v = (if length xs \<le> t then Inl IndexError else Inr (xs[t := v]))"

text \<open>\<open>a[:, t] = v\<close>\<close>

definition assign_col :: "'v array2 \<Rightarrow> nat \<Rightarrow> 'v list \<Rightarrow> error + 'v array2" where
  "assign_col a t v =
     (if ncols a \<le> t then Inl IndexError
      else ebind (np_broadcast (length (rows a)) v)
             (\<lambda>w. Inr (a\<lparr>rows := map2 (\<lambda>r x. r[t := x]) (rows a) w\<rparr>)))"

text \<open>\<open>a[:, -1] = v\<close>\<close>

definition set_col_last :: "'v array2 \<Rightarrow> 'v list \<Rightarrow> error + 'v array2" where
  "set_col_last a v =
     (if ncols a = 0 then Inl IndexError else assign_col a (ncols a - 1) v)"

text \<open>\<open>a[i] = v\<close>\<close>

definition assign_row :: "'v array2 \<Rightarrow> nat \<Rightarrow> 'v list \<Rightarrow> error + 'v array2" where
  "assign_row a i v =
     (if length (rows a) \<le> i then Inl IndexError
      else ebind (np_broadcast (ncols a) v) (\<lambda>w. Inr (a\<lparr>rows := (rows a)[i := w]\<rparr>)))"

section \<open>tabe/models/tabe.py\<close>

subsection \<open>Collaborators\<close>

text \<open>
  The dataset class, the loader, the combiner and the adjuster are not part of the two
  files. A dataset object offers \<open>data_y\<close>, \<open>scale\<close> and \<open>inverse_transform\<close>.
\<close>

record 'v Dataset =
  data_y :: "'v array2"
  scale :: bool
  inverse_transform :: "'v array2 \<Rightarrow> 'v array2"

text \<open>
  The other collaborators are parameters, functions of their own state:
  \<^item> \<open>Data\<close>: the dataset constructor called by \<open>_data_provider\<close>;
  \<^item> \<open>loader_batches\<close>: the batches of a loader, in the order of its iteration,
    before its collate function is applied; \<open>len(loader)\<close> is their number;
  \<^item> \<open>cbm_train\<close>, \<open>cbm_proceed_onestep\<close>, \<open>cbm_basemodels\<close>: the combiner's
    \<open>train()\<close>, its \<open>proceed_onestep\<close> (the last argument is \<open>None\<close> when the caller
    omits \<open>training\<close>) and \<open>len(combiner_model.basemodels)\<close>;
  \<^item> \<open>adj_train\<close>, \<open>adj_proceed_onestep\<close>: the adjuster's two entry points.
\<close>

record ('c, 'a, 'v) collaborators =
  Data :: "Data_class \<Rightarrow> ctor_args \<Rightarrow> error + 'v Dataset"
  loader_batches :: "'v Dataset DataLoader \<Rightarrow> 'v batch list"
  cbm_train :: "'c \<Rightarrow> 'c"
  cbm_proceed_onestep :: "'c \<Rightarrow> 'v batch \<Rightarrow> bool option \<Rightarrow> ('v \<times> 'v list) \<times> 'c"
  cbm_basemodels :: "'c \<Rightarrow> nat"
  adj_train :: "'a \<Rightarrow> 'v list \<Rightarrow> 'v list \<Rightarrow> 'v list \<times> 'a"
  adj_proceed_onestep :: "'a \<Rightarrow> 'v \<Rightarrow> 'v \<Rightarrow> bool \<Rightarrow> 'v \<times> 'a"

subsection \<open>The state of a \<open>TabeModel\<close>\<close>

text \<open>
  \<open>y_hat\<close> and \<open>truths\<close> are \<open>None\<close> after \<open>__init__\<close>; \<open>y_hat_cbm\<close> is not set
  by \<open>__init__\<close> at all, which is \<open>None\<close> here as well.
\<close>

record ('c, 'a, 'v) TabeModel =
  configs :: configs
  combiner_model :: 'c
  adjuster_model :: "'a option"
  y_hat :: "'v list option"
  truths :: "'v list option"
  y_hat_cbm :: "'v list option"

definition init :: "configs \<Rightarrow> 'c \<Rightarrow> 'a option \<Rightarrow> ('c, 'a, 'v) TabeModel" where
  "init cfg cbm adj =
     \<lparr>configs = cfg, combiner_model = cbm, adjuster_model = adj,
      y_hat = None, truths = None, y_hat_cbm = None\<rparr>"

subsection \<open>\<open>TabeModel.proceed_onestep\<close>\<close>

text \<open>
  Reading the unset attribute \<open>self.y_hat_cbm\<close> is an \<open>AttributeError\<close>;
  \<open>np.concatenate\<close> with \<open>None\<close> is a \<open>ValueError\<close>. Both come after the
  collaborators were called.
\<close>

definition proceed_onestep ::
  "('c, 'a, 'v) collaborators \<Rightarrow> ('c, 'a, 'v) TabeModel \<Rightarrow> 'v batch \<Rightarrow> bool
     \<Rightarrow> error + (('v \<times> 'v \<times> 'v \<times> 'v list) \<times> ('c, 'a, 'v) TabeModel)" where
  "proceed_onestep env self b training =
     (if \<not> (length (batch_x b) = 1 \<and> length (batch_y b) = 1) then Inl AssertionError
      else
        ebind (truth_of (batch_y b))
          (\<lambda>y.
             let ((y_hat_cbm1, y_hat_bsm1), cbm') =
                   cbm_proceed_onestep env (combiner_model self) b (Some training);
                 (y_hat_adj1, adj') =
                   (case adjuster_model self of
                      None \<Rightarrow> (y_hat_cbm1, None)
                    | Some adj \<Rightarrow>
                        (let (p, adj2) = adj_proceed_onestep env adj y y_hat_cbm1 training
                         in (p, Some adj2)));
                 y_hat_tabe = y_hat_adj1
             in
             case y_hat_cbm self of
               None \<Rightarrow> Inl AttributeError
             | Some hist_cbm \<Rightarrow>
                 (case y_hat self of
                    None \<Rightarrow> Inl ValueError
                  | Some hist \<Rightarrow>
                      (case truths self of
                         None \<Rightarrow> Inl ValueError
                       | Some hist_y \<Rightarrow>
                           Inr ((y_hat_tabe, y_hat_adj1, y_hat_cbm1, y_hat_bsm1),
                                self\<lparr>combiner_model := cbm', adjuster_model := adj',
                                     y_hat_cbm := Some (hist_cbm @ [y_hat_cbm1]),
                                     y_hat := Some (hist @ [y_hat_tabe]),
                                     truths := Some (hist_y @ [y])\<rparr>)))))"

subsection \<open>Iterating a loader\<close>

text \<open>
  Each step of \<open>for ... in enumerate(loader)\<close> fetches a batch, and the loader
  applies its collate function to it. The default one returns the batch. The one the
  classification branch of \<open>_data_provider\<close> passes is
  \<open>lambda x: collate_fn(x, max_len=configs.seq_len)\<close>, and \<open>dataset_loader.py\<close>
  neither defines nor imports a name \<open>collate_fn\<close>: fetching a batch from such a
  loader is a \<open>NameError\<close>. \<open>len(loader)\<close> does not fetch.
\<close>

definition fetch_batch :: "'d DataLoader \<Rightarrow> 'b \<Rightarrow> error + 'b" where
  "fetch_batch loader b =
     (case collate_max_len loader of
        None \<Rightarrow> Inr b
      | Some max_len \<Rightarrow> Inl NameError)"

subsection \<open>\<open>TabeModel.train\<close>\<close>

text \<open>
  The loop of \<open>train\<close> over the batches of \<open>loader\<close>: \<open>t\<close> is the index
  \<open>enumerate\<close> gives.
\<close>

fun train_loop ::
  "('c, 'a, 'v) collaborators \<Rightarrow> 'd DataLoader \<Rightarrow> nat \<Rightarrow> 'v batch list \<Rightarrow> 'v list \<times> 'c
     \<Rightarrow> error + ('v list \<times> 'c)" where
  "train_loop env loader t [] acc = Inr acc"
| "train_loop env loader t (b # bs) (arr, cbm) =
     ebind (fetch_batch loader b)
       (\<lambda>batch.
          let ((y_hat_t, _), cbm') = cbm_proceed_onestep env cbm batch None
          in ebind (assign_elem arr t y_hat_t)
               (\<lambda>arr'. train_loop env loader (Suc t) bs (arr', cbm')))"

text \<open>
  The state is the provider caches and the model. \<open>junk\<close> is what the buffer of
  \<open>np.empty_like(y)\<close> holds.
\<close>

definition train ::
  "('c, 'a, 'v) collaborators \<Rightarrow> (nat \<Rightarrow> 'v)
     \<Rightarrow> 'v Dataset provider_state \<times> ('c, 'a, 'v) TabeModel
     \<Rightarrow> error + ('v Dataset provider_state \<times> ('c, 'a, 'v) TabeModel)" where
  "train env junk w =
     (case w of (prov, self) \<Rightarrow>
        let cbm1 = cbm_train env (combiner_model self) in
        ebind (get_data_provider (Data env) prov (configs self) ''ensemble_train'' True)
          (\<lambda>((train_dataset, train_loader), prov').
             ebind (slice_col_last (seq_len (configs self)) (data_y (the_obj train_dataset)))
               (\<lambda>y.
                  let batches = loader_batches env (the_obj train_loader) in
                  if length y \<noteq> length batches then Inl AssertionError
                  else
                    ebind (train_loop env (the_obj train_loader) 0 batches
                             (np_empty_like junk y, cbm1))
                      (\<lambda>(y_hat_cbm1, cbm2).
                         let (y_hat1, adj') =
                               (case adjuster_model self of
                                  None \<Rightarrow> (y_hat_cbm1, None)
                                | Some adj \<Rightarrow>
                                    (let (p, adj2) = adj_train env adj y y_hat_cbm1
                                     in (p, Some adj2)))
                         in
                         Inr (prov',
                              self\<lparr>combiner_model := cbm2, adjuster_model := adj',
                                   truths := Some y, y_hat := Some y_hat1,
                                   y_hat_cbm := Some y_hat_cbm1\<rparr>)))))"

subsection \<open>\<open>TabeModel.test\<close>\<close>

text \<open>
  The buffers that the loop of \<open>test\<close> writes, and what the seven fresh buffers
  hold before they are written.
\<close>

record 'v test_arrays =
  tabe_pred :: "'v list"
  y_hat_adj :: "'v list"
  y_hat_cbm_arr :: "'v list"
  y_hat_bsm :: "'v array2"

record 'v test_junk =
  junk_tabe_pred :: "nat \<Rightarrow> 'v"
  junk_y_hat_adj :: "nat \<Rightarrow> 'v"
  junk_y_hat_cbm :: "nat \<Rightarrow> 'v"
  junk_y_hat_bsm :: "nat \<Rightarrow> nat \<Rightarrow> 'v"
  junk_y_hat_q_low :: "nat \<Rightarrow> 'v"
  junk_y_hat_q_high :: "nat \<Rightarrow> 'v"
  junk_devi_stddev :: "nat \<Rightarrow> 'v"

definition test_arrays0 :: "'v test_junk \<Rightarrow> nat \<Rightarrow> 'v list \<Rightarrow> 'v test_arrays" where
  "test_arrays0 junk n_basemodels y =
     \<lparr>tabe_pred = np_empty_like (junk_tabe_pred junk) y,
      y_hat_adj = np_empty_like (junk_y_hat_adj junk) y,
      y_hat_cbm_arr = np_empty_like (junk_y_hat_cbm junk) y,
      y_hat_bsm = np_empty2 (junk_y_hat_bsm junk) n_basemodels (length y)\<rparr>"

text \<open>
  The loop of \<open>test\<close>. The call comes first, then the four targets are assigned from
  left to right.
\<close>

fun test_loop ::
  "('c, 'a, 'v) collaborators \<Rightarrow> 'd DataLoader \<Rightarrow> nat \<Rightarrow> 'v batch list
     \<Rightarrow> 'v test_arrays \<times> ('c, 'a, 'v) TabeModel
     \<Rightarrow> error + ('v test_arrays \<times> ('c, 'a, 'v) TabeModel)" where
  "test_loop env loader t [] acc = Inr acc"
| "test_loop env loader t (b # bs) (A, self) =
     ebind (fetch_batch loader b)
       (\<lambda>batch.
     ebind (proceed_onestep env self batch True)
       (\<lambda>((p_tabe, p_adj, p_cbm, p_bsm), self').
          ebind (assign_elem (tabe_pred A) t p_tabe)
            (\<lambda>a1. ebind (assign_elem (y_hat_adj A) t p_adj)
               (\<lambda>a2. ebind (assign_elem (y_hat_cbm_arr A) t p_cbm)
                  (\<lambda>a3. ebind (assign_col (y_hat_bsm A) t p_bsm)
                     (\<lambda>a4. test_loop env loader (Suc t) bs
                              (\<lparr>tabe_pred = a1, y_hat_adj = a2, y_hat_cbm_arr = a3,
                                y_hat_bsm = a4\<rparr>, self')))))))"

text \<open>
  The loop over the rows of \<open>y_hat_bsm\<close> in the inversion block; \<open>n\<close> is \<open>len(y)\<close>,
  read after \<open>y\<close> was replaced by its inverse-transformed series.
\<close>

fun invert_bsm ::
  "('v::zero) Dataset \<Rightarrow> nat \<Rightarrow> nat \<Rightarrow> nat list \<Rightarrow> 'v array2 \<Rightarrow> error + 'v array2" where
  "invert_bsm test_set n n_features [] a = Inr a"
| "invert_bsm test_set n n_features (i # is) a =
     ebind (set_col_last (np_zeros n n_features) (rows a ! i))
       (\<lambda>data_y_hat_bsm.
          ebind (col_last (inverse_transform test_set data_y_hat_bsm))
            (\<lambda>r. ebind (assign_row a i r) (invert_bsm test_set n n_features is)))"

text \<open>The body of \<open>if need_to_invert_data:\<close>, giving the four replaced variables.\<close>

definition test_invert ::
  "('v::zero) Dataset \<Rightarrow> 'v list \<Rightarrow> 'v test_arrays
     \<Rightarrow> error + ('v list \<times> 'v list \<times> 'v list \<times> 'v array2)" where
  "test_invert test_set y A =
     (let n_features = ncols (data_y test_set) in
      ebind (set_col_last (np_zeros (length y) n_features) y)
        (\<lambda>data_y1.
      ebind (set_col_last (np_zeros (length y) n_features) (tabe_pred A))
        (\<lambda>data_final_pred.
      ebind (set_col_last (np_zeros (length y) n_features) (y_hat_cbm_arr A))
        (\<lambda>data_y_hat_cbm.
      ebind (col_last (inverse_transform test_set data_y1))
        (\<lambda>y'.
      ebind (col_last (inverse_transform test_set data_final_pred))
        (\<lambda>tabe_pred'.
      ebind (col_last (inverse_transform test_set data_y_hat_cbm))
        (\<lambda>y_hat_cbm'.
      ebind (invert_bsm test_set (length y') n_features
               [0..<length (rows (y_hat_bsm A))] (y_hat_bsm A))
        (\<lambda>y_hat_bsm'. Inr (y', tabe_pred', y_hat_cbm', y_hat_bsm')))))))))"

text \<open>
  The tuple \<open>test\<close> returns, by position: \<open>res_y\<close> (1), \<open>res_tabe_pred\<close> (2),
  \<open>res_y_hat_cbm\<close> (3), \<open>res_y_hat_bsm\<close> (4), \<open>res_y_hat_q_low\<close> (5),
  \<open>res_y_hat_q_high\<close> (6), \<open>res_threshold\<close> (7), \<open>res_devi_stddev\<close> (8).
\<close>

record 'v test_result =
  res_y :: "'v list"
  res_tabe_pred :: "'v list"
  res_y_hat_cbm :: "'v list"
  res_y_hat_bsm :: "'v array2"
  res_y_hat_q_low :: "'v list"
  res_y_hat_q_high :: "'v list"
  res_threshold :: "'v list option"
  res_devi_stddev :: "'v list"

definition test ::
  "('c, 'a, 'v::zero) collaborators \<Rightarrow> 'v test_junk
     \<Rightarrow> 'v Dataset provider_state \<times> ('c, 'a, 'v) TabeModel
     \<Rightarrow> error + ('v test_result \<times> 'v Dataset provider_state \<times> ('c, 'a, 'v) TabeModel)" where
  "test env junk w =
     (case w of (prov, self) \<Rightarrow>
        ebind (get_data_provider (Data env) prov (configs self) ''test'' True)
          (\<lambda>((test_set, test_loader), prov').
             ebind (slice_col_last (seq_len (configs self)) (data_y (the_obj test_set)))
               (\<lambda>y.
                  let need_to_invert_data =
                        (scale (the_obj test_set) \<and> inverse_cfg (configs self));
                      A0 = test_arrays0 junk (cbm_basemodels env (combiner_model self)) y;
                      y_hat_q_low = np_empty_like (junk_y_hat_q_low junk) y;
                      y_hat_q_high = np_empty_like (junk_y_hat_q_high junk) y;
                      devi_stddev = np_empty_like (junk_devi_stddev junk) y
                  in
                  ebind (test_loop env (the_obj test_loader) 0
                           (loader_batches env (the_obj test_loader)) (A0, self))
                    (\<lambda>(A, self').
                       ebind
                         (if need_to_invert_data then test_invert (the_obj test_set) y A
                          else Inr (y, tabe_pred A, y_hat_cbm_arr A, y_hat_bsm A))
                         (\<lambda>(y2, tabe_pred2, y_hat_cbm2, y_hat_bsm2).
                            Inr (\<lparr>res_y = y2, res_tabe_pred = tabe_pred2,
                                  res_y_hat_cbm = y_hat_cbm2, res_y_hat_bsm = y_hat_bsm2,
                                  res_y_hat_q_low = y_hat_q_low,
                                  res_y_hat_q_high = y_hat_q_high,
                                  res_threshold = None,
                                  res_devi_stddev = devi_stddev\<rparr>,
                                 (prov', self')))))))"

section \<open>Notions used to state the properties\<close>

text \<open>
  \<open>set_truth t v\<close> is the target tensor \<open>t\<close> with the entry \<open>[0, -1, -1]\<close> replaced
  by \<open>v\<close>; a tensor that has no such entry is left as it is.
\<close>

definition set_truth :: "'v tensor3 \<Rightarrow> 'v \<Rightarrow> 'v tensor3" where
  "set_truth t v =
     (case t of
        [] \<Rightarrow> []
      | w # ws \<Rightarrow>
          if w = [] \<or> last w = [] then t
          else (butlast w @ [butlast (last w) @ [v]]) # ws)"

text \<open>
  The three series of the prediction history are all set and have the same length.
\<close>

definition history_aligned :: "('c, 'a, 'v) TabeModel \<Rightarrow> bool" where
  "history_aligned self =
     (case truths self of
        None \<Rightarrow> False
      | Some t \<Rightarrow>
          (case y_hat self of
             None \<Rightarrow> False
           | Some h \<Rightarrow>
               (case y_hat_cbm self of
                  None \<Rightarrow> False
                | Some c \<Rightarrow> length t = length h \<and> length h = length c)))"

text \<open>
  The pattern of the inversion block in words: a series is embedded into a matrix of the
  full feature width that is zero except in its last column, the inverse transform of the
  dataset is applied, and the last column is read back.
\<close>

definition embed_target :: "nat \<Rightarrow> ('v::zero) list \<Rightarrow> 'v array2" where
  "embed_target n_features s =
     \<lparr>ncols = n_features, rows = map (\<lambda>v. replicate (n_features - 1) 0 @ [v]) s\<rparr>"

definition reconstruct_transform_extract :: "('v::zero) Dataset \<Rightarrow> 'v list \<Rightarrow> 'v list" where
  "reconstruct_transform_extract test_set s =
     map last (rows (inverse_transform test_set (embed_target (ncols (data_y test_set)) s)))"

text \<open>
  The predictions the combiner gives when it is stepped through the batches in order,
  from the state \<open>cbm\<close>, with \<open>training\<close> left at its default.
\<close>

fun collected :: "('c, 'a, 'v) collaborators \<Rightarrow> 'c \<Rightarrow> 'v batch list \<Rightarrow> 'v list" where
  "collected env cbm [] = []"
| "collected env cbm (b # bs) =
     fst (fst (cbm_proceed_onestep env cbm b None))
       # collected env (snd (cbm_proceed_onestep env cbm b None)) bs"

text \<open>Every row of a 2-D array has as many entries as the array has columns.\<close>

definition wf_array2 :: "'v array2 \<Rightarrow> bool" where
  "wf_array2 a = (\<forall>r \<in> set (rows a). length r = ncols a)"

section \<open>A concrete run\<close>

text \<open>
  A small instance on which the theorems below are exercised: a forecasting
  configuration with \<open>seq_len = 1\<close>, a dataset of three rows and two features whose
  scaler is \<open>x \<mapsto> 2 x + 1\<close>, a loader that yields one window per row after the first,
  a combiner that predicts the first feature of the input window and counts its calls,
  and an adjuster that adds the error of the previous step.
\<close>

definition demo_configs :: configs where
  "demo_configs =
     \<lparr>data = ''TABE_FILE'', embed_cfg = ''timeF'', batch_size = 32, freq = ''d'',
      task_name = ''long_term_forecast'', root_path = ''./dataset'', data_path = ''a.csv'',
      seq_len = 1, label_len = 0, pred_len = 1, features = ''MS'', target = ''OT'',
      num_workers = 0, seasonal_patterns = ''Monthly'', inverse_cfg = True\<rparr>"

definition demo_dataset :: "int Dataset" where
  "demo_dataset =
     \<lparr>data_y = \<lparr>ncols = 2, rows = [[0, 10], [1, 20], [2, 30]]\<rparr>,
      scale = True,
      inverse_transform = (\<lambda>a. a\<lparr>rows := map (map (\<lambda>x. 2 * x + 1)) (rows a)\<rparr>)\<rparr>"

definition demo_Data :: "Data_class \<Rightarrow> ctor_args \<Rightarrow> error + int Dataset" where
  "demo_Data cls args =
     (case args of
        Forecast_args c r d f sz fe tg te fr sp \<Rightarrow> Inr demo_dataset
      | _ \<Rightarrow> Inl DataError)"

definition demo_window :: "int list \<Rightarrow> int batch" where
  "demo_window r =
     \<lparr>batch_x = [[r]], batch_y = [[r]], batch_x_mark = [[[]]], batch_y_mark = [[[]]]\<rparr>"

definition demo_batches :: "int Dataset DataLoader \<Rightarrow> int batch list" where
  "demo_batches dl = map demo_window (drop 1 (rows (data_y (the_obj (dataset dl)))))"

definition demo_cbm_step :: "nat \<Rightarrow> int batch \<Rightarrow> bool option \<Rightarrow> (int \<times> int list) \<times> nat" where
  "demo_cbm_step c b training =
     (let p = hd (hd (hd (batch_x b))) in ((p, [p, p + 1]), Suc c))"

definition demo_env :: "(nat, int, int) collaborators" where
  "demo_env =
     \<lparr>Data = demo_Data, loader_batches = demo_batches,
      cbm_train = (\<lambda>c. c), cbm_proceed_onestep = demo_cbm_step,
      cbm_basemodels = (\<lambda>c. 2),
      adj_train = (\<lambda>a y yc. (yc, a)),
      adj_proceed_onestep = (\<lambda>a y yc training. (yc + a, y - yc))\<rparr>"

text \<open>An adjuster that returns the truth it is given as its prediction.\<close>

definition echo_env :: "(nat, int, int) collaborators" where
  "echo_env = demo_env\<lparr>adj_proceed_onestep := (\<lambda>a y yc training. (y, a))\<rparr>"

text \<open>An adjuster whose batch training returns an empty series.\<close>

definition short_env :: "(nat, int, int) collaborators" where
  "short_env = demo_env\<lparr>adj_train := (\<lambda>a y yc. ([], a))\<rparr>"

definition empty_provider :: "int Dataset provider_state" where
  "empty_provider = \<lparr>cache_dataset = Map.empty, cache_dataloader = Map.empty, next_id = 0\<rparr>"

definition demo_junk :: "int test_junk" where
  "demo_junk =
     \<lparr>junk_tabe_pred = (\<lambda>i. 101), junk_y_hat_adj = (\<lambda>i. 102), junk_y_hat_cbm = (\<lambda>i. 103),
      junk_y_hat_bsm = (\<lambda>i j. 104), junk_y_hat_q_low = (\<lambda>i. 105 + int i),
      junk_y_hat_q_high = (\<lambda>i. 106), junk_devi_stddev = (\<lambda>i. 107)\<rparr>"

text \<open>What the buffer of \<open>train\<close> holds before it is written.\<close>

definition demo_train_junk :: "nat \<Rightarrow> int" where
  "demo_train_junk i = 0"

text \<open>A dataset constructor that always raises.\<close>

definition failing_Data :: "Data_class \<Rightarrow> ctor_args \<Rightarrow> error + int Dataset" where
  "failing_Data cls args = Inl DataError"

definition demo_model :: "int option \<Rightarrow> (nat, int, int) TabeModel" where
  "demo_model adj = init demo_configs 0 adj"

definition trained_model :: "int option \<Rightarrow> (nat, int, int) TabeModel" where
  "trained_model adj =
     \<lparr>configs = demo_configs, combiner_model = 2, adjuster_model = adj,
      y_hat = Some [1, 2], truths = Some [20, 30], y_hat_cbm = Some [1, 2]\<rparr>"

text \<open>
  The loader and the provider state of the concrete run, and a loader that yields one
  window fewer than the dataset has truths.
\<close>

definition demo_loader :: "int Dataset DataLoader" where
  "demo_loader =
     \<lparr>dataset = (0, demo_dataset), dl_batch_size = 1, shuffle = False,
      dl_num_workers = 0, drop_last = False, collate_max_len = None\<rparr>"

definition demo_provider :: "string \<Rightarrow> int Dataset provider_state" where
  "demo_provider key =
     \<lparr>cache_dataset = [key \<mapsto> (0, demo_dataset)],
      cache_dataloader = [key \<mapsto> (Suc 0, demo_loader)], next_id = 2\<rparr>"

definition mismatch_env :: "(nat, int, int) collaborators" where
  "mismatch_env = demo_env\<lparr>loader_batches := (\<lambda>dl. take 1 (demo_batches dl))\<rparr>"

text \<open>The buffers, the model and the result of the concrete test run.\<close>

definition demo_arrays :: "int test_arrays" where
  "demo_arrays =
     \<lparr>tabe_pred = [1, 2], y_hat_adj = [1, 2], y_hat_cbm_arr = [1, 2],
      y_hat_bsm = \<lparr>ncols = 2, rows = [[1, 2], [2, 3]]\<rparr>\<rparr>"

definition tested_model :: "(nat, int, int) TabeModel" where
  "tested_model =
     \<lparr>configs = demo_configs, combiner_model = 4, adjuster_model = None,
      y_hat = Some [1, 2, 1, 2], truths = Some [20, 30, 20, 30],
      y_hat_cbm = Some [1, 2, 1, 2]\<rparr>"

definition demo_result :: "int test_result" where
  "demo_result =
     \<lparr>res_y = [41, 61], res_tabe_pred = [3, 5], res_y_hat_cbm = [3, 5],
      res_y_hat_bsm = \<lparr>ncols = 2, rows = [[3, 5], [5, 7]]\<rparr>,
      res_y_hat_q_low = [105, 106], res_y_hat_q_high = [106, 106],
      res_threshold = None, res_devi_stddev = [107, 107]\<rparr>"

text \<open>The model of the concrete run after one more step with truth 99.\<close>

definition stepped_model :: "(nat, int, int) TabeModel" where
  "stepped_model =
     \<lparr>configs = demo_configs, combiner_model = 3, adjuster_model = Some 96,
      y_hat = Some [1, 2, 8], truths = Some [20, 30, 99], y_hat_cbm = Some [1, 2, 3]\<rparr>"

section \<open>Facts about the concrete run\<close>

lemma demo_data_provider:
  "data_provider demo_Data n demo_configs flag sbs =
     Inr ((n, demo_dataset),
          (Suc n, \<lparr>dataset = (n, demo_dataset), dl_batch_size = (if sbs then 1 else 32),
                   shuffle = (\<not> (flag = ''test'' \<or> flag = ''TEST'' \<or> sbs)),
                   dl_num_workers = 0, drop_last = False, collate_max_len = None\<rparr>))"
  by (simp add: data_provider_def new_DataLoader_def demo_Data_def demo_configs_def
        data_dict_def ebind_def)

lemma demo_get_data_provider:
  "get_data_provider demo_Data empty_provider demo_configs flag True =
     Inr (((0, demo_dataset),
           (1, \<lparr>dataset = (0, demo_dataset), dl_batch_size = 1, shuffle = False,
                dl_num_workers = 0, drop_last = False, collate_max_len = None\<rparr>)),
          \<lparr>cache_dataset = [cache_key flag True \<mapsto> (0, demo_dataset)],
           cache_dataloader = [cache_key flag True \<mapsto>
             (1, \<lparr>dataset = (0, demo_dataset), dl_batch_size = 1, shuffle = False,
                dl_num_workers = 0, drop_last = False, collate_max_len = None\<rparr>)],
           next_id = 2\<rparr>)"
  by (simp add: get_data_provider_def demo_data_provider empty_provider_def ebind_def Let_def)

section \<open>The dataset provider\<close>

text \<open>
  C5. Whatever the configuration, the flag and the dataset constructor, a loader that
  \<open>_data_provider\<close> returns has batch size 1 and no shuffling when \<open>step_by_step\<close>
  is true, whatever \<open>configs.batch_size\<close> asks for, and has no shuffling when the flag
  is \<open>test\<close> or \<open>TEST\<close>, also when \<open>step_by_step\<close> is false.
\<close>

theorem data_provider_loader_settings:
  assumes "data_provider mk fresh cfg flag step_by_step = Inr (ds, dl)"
  shows "(step_by_step \<longrightarrow> dl_batch_size (the_obj dl) = 1 \<and> \<not> shuffle (the_obj dl))
       \<and> (flag = ''test'' \<or> flag = ''TEST'' \<longrightarrow> \<not> shuffle (the_obj dl))"
  using assms
  by (auto simp: data_provider_def new_DataLoader_def ebind_def the_obj_def Let_def
           split: option.splits if_splits sum.splits)

theorem data_provider_loader_settings_witness:
  "data_provider demo_Data 0 demo_configs ''ensemble_train'' True =
     Inr ((0, demo_dataset),
          (1, \<lparr>dataset = (0, demo_dataset), dl_batch_size = 1, shuffle = False,
               dl_num_workers = 0, drop_last = False, collate_max_len = None\<rparr>))
   \<and> batch_size demo_configs = 32
   \<and> data_provider demo_Data 0 demo_configs ''TEST'' False =
     Inr ((0, demo_dataset),
          (1, \<lparr>dataset = (0, demo_dataset), dl_batch_size = 32, shuffle = False,
               dl_num_workers = 0, drop_last = False, collate_max_len = None\<rparr>))"
proof -
  have h: "data_provider demo_Data 0 demo_configs ''ensemble_train'' True =
     Inr ((0, demo_dataset),
          (1, \<lparr>dataset = (0, demo_dataset), dl_batch_size = 1, shuffle = False,
               dl_num_workers = 0, drop_last = False, collate_max_len = None\<rparr>))"
    by (simp add: demo_data_provider)
  have b: "batch_size demo_configs = 32"
    by (simp add: demo_configs_def)
  show ?thesis
    using data_provider_loader_settings [OF h] b
    by (simp add: demo_data_provider)
qed

text \<open>
  C4. If a call of \<open>get_data_provider\<close> returns a pair, then every later call with the
  same flag and the same \<open>step_by_step\<close> returns that very pair (the same objects, with
  the same identities) and leaves the caches as they are, also when it is given another
  configuration \<open>cfg'\<close> or when constructing a dataset would now behave differently
  (\<open>mk'\<close>): nothing is constructed on a hit.
\<close>

theorem get_data_provider_cache_hit:
  assumes "get_data_provider mk st cfg flag step_by_step = Inr (pr, st')"
  shows "get_data_provider mk' st' cfg' flag step_by_step = Inr (pr, st')"
  using assms
  by (auto simp: get_data_provider_def ebind_def Let_def
           split: option.splits if_splits sum.splits prod.splits)

theorem get_data_provider_cache_hit_witness:
  "get_data_provider failing_Data
     \<lparr>cache_dataset = [''test_stb'' \<mapsto> (0, demo_dataset)],
      cache_dataloader = [''test_stb'' \<mapsto>
             (1, \<lparr>dataset = (0, demo_dataset), dl_batch_size = 1, shuffle = False,
                dl_num_workers = 0, drop_last = False, collate_max_len = None\<rparr>)],
      next_id = 2\<rparr>
     (demo_configs\<lparr>batch_size := 7, data := ''unknown''\<rparr>) ''test'' True =
   Inr (((0, demo_dataset),
           (1, \<lparr>dataset = (0, demo_dataset), dl_batch_size = 1, shuffle = False,
                dl_num_workers = 0, drop_last = False, collate_max_len = None\<rparr>)),
          \<lparr>cache_dataset = [''test_stb'' \<mapsto> (0, demo_dataset)],
           cache_dataloader = [''test_stb'' \<mapsto>
             (1, \<lparr>dataset = (0, demo_dataset), dl_batch_size = 1, shuffle = False,
                dl_num_workers = 0, drop_last = False, collate_max_len = None\<rparr>)],
           next_id = 2\<rparr>)"
  using get_data_provider_cache_hit [OF demo_get_data_provider [of "''test''"],
          of failing_Data "demo_configs\<lparr>batch_size := 7, data := ''unknown''\<rparr>"]
  by (simp add: cache_key_def)

section \<open>\<open>proceed_onestep\<close>\<close>

lemma length_set_truth: "length (set_truth t v) = length t"
  by (simp add: set_truth_def split: list.splits)

lemma truth_of_set_truth:
  "truth_of (set_truth t v) = (case truth_of t of Inl e \<Rightarrow> Inl e | Inr u \<Rightarrow> Inr v)"
  by (cases t) (auto simp: set_truth_def truth_of_def)

lemma demo_set_truth: "set_truth (batch_y (demo_window [3, 4])) u = [[[3, u]]]"
  by (simp add: set_truth_def demo_window_def)

text \<open>What a returning call of \<open>proceed_onestep\<close> returns and how it changes the model.\<close>

lemma proceed_onestep_Inr:
  "proceed_onestep env self b training = Inr (r, self') \<longleftrightarrow>
     length (batch_x b) = 1 \<and> length (batch_y b) = 1 \<and>
     (\<exists>y hc h ht.
        truth_of (batch_y b) = Inr y \<and> y_hat_cbm self = Some hc \<and> y_hat self = Some h \<and>
        truths self = Some ht \<and>
        (let out = cbm_proceed_onestep env (combiner_model self) b (Some training);
             p_cbm = fst (fst out);
             adj = (case adjuster_model self of None \<Rightarrow> (p_cbm, None)
                    | Some a \<Rightarrow> (fst (adj_proceed_onestep env a y p_cbm training),
                                 Some (snd (adj_proceed_onestep env a y p_cbm training))))
         in r = (fst adj, fst adj, p_cbm, snd (fst out)) \<and>
            self' = self\<lparr>combiner_model := snd out, adjuster_model := snd adj,
                         y_hat_cbm := Some (hc @ [p_cbm]),
                         y_hat := Some (h @ [fst adj]),
                         truths := Some (ht @ [y])\<rparr>))"
  by (auto simp: proceed_onestep_def ebind_def Let_def
           split: sum.splits option.splits prod.splits if_splits)

lemma demo_proceed_onestep:
  "proceed_onestep demo_env (trained_model (Some a))
     (demo_window [3, 4]\<lparr>batch_y := [[[3, u]]]\<rparr>) True =
     Inr ((3 + a, 3 + a, 3, [3, 4]),
          \<lparr>configs = demo_configs, combiner_model = 3, adjuster_model = Some (u - 3),
           y_hat = Some [1, 2, 3 + a], truths = Some [20, 30, u],
           y_hat_cbm = Some [1, 2, 3]\<rparr>)"
  by (simp add: proceed_onestep_def demo_env_def trained_model_def demo_window_def
        demo_cbm_step_def truth_of_def ebind_def)

lemma echo_proceed_onestep:
  "proceed_onestep echo_env (trained_model (Some a))
     (demo_window [3, 4]\<lparr>batch_y := [[[3, u]]]\<rparr>) True =
     Inr ((u, u, 3, [3, 4]),
          \<lparr>configs = demo_configs, combiner_model = 3, adjuster_model = Some a,
           y_hat = Some [1, 2, u], truths = Some [20, 30, u],
           y_hat_cbm = Some [1, 2, 3]\<rparr>)"
  by (simp add: proceed_onestep_def echo_env_def demo_env_def trained_model_def
        demo_window_def demo_cbm_step_def truth_of_def ebind_def)

text \<open>
  C8. \<open>proceed_onestep\<close> ends in an \<open>AssertionError\<close> exactly when the batch dimension
  of the input tensor or of the target tensor is not 1. Such a window gives no result and
  no new state: neither collaborator is called and nothing is appended.
\<close>

theorem proceed_onestep_assertion:
  "proceed_onestep env self b training = Inl AssertionError
     \<longleftrightarrow> length (batch_x b) \<noteq> 1 \<or> length (batch_y b) \<noteq> 1"
  by (auto simp: proceed_onestep_def ebind_def truth_of_def Let_def
           split: sum.splits list.splits option.splits prod.splits if_splits)

theorem proceed_onestep_assertion_witness:
  "proceed_onestep demo_env (trained_model None)
     \<lparr>batch_x = [[[1, 2]], [[3, 4]]], batch_y = [[[3, 4]]],
      batch_x_mark = [[[]]], batch_y_mark = [[[]]]\<rparr> True = Inl AssertionError
   \<and> proceed_onestep demo_env (trained_model None)
     \<lparr>batch_x = [[[1, 2]]], batch_y = [],
      batch_x_mark = [[[]]], batch_y_mark = [[[]]]\<rparr> True = Inl AssertionError
   \<and> proceed_onestep demo_env (trained_model None)
     \<lparr>batch_x = [[[1, 2]]], batch_y = [[]],
      batch_x_mark = [[[]]], batch_y_mark = [[[]]]\<rparr> True \<noteq> Inl AssertionError"
  using proceed_onestep_assertion [of demo_env "trained_model None"
          "\<lparr>batch_x = [[[1, 2]], [[3, 4]]], batch_y = [[[3, 4]]],
            batch_x_mark = [[[]]], batch_y_mark = [[[]]]\<rparr>" True]
        proceed_onestep_assertion [of demo_env "trained_model None"
          "\<lparr>batch_x = [[[1, 2]]], batch_y = [],
            batch_x_mark = [[[]]], batch_y_mark = [[[]]]\<rparr>" True]
        proceed_onestep_assertion [of demo_env "trained_model None"
          "\<lparr>batch_x = [[[1, 2]]], batch_y = [[]],
            batch_x_mark = [[[]]], batch_y_mark = [[[]]]\<rparr>" True]
  by simp

text \<open>
  C1, as stated, fails: \<open>proceed_onestep\<close> hands the truth of the window to the adjuster
  before the adjuster returns the prediction, and hands the whole target tensor to the
  combiner. With an adjuster that returns the truth it is given, two windows that differ
  only in the truth entry get different predictions from the same model state.
\<close>

theorem proceed_onestep_truth_leak_counterexample:
  "map_sum id fst
     (proceed_onestep echo_env (trained_model (Some 0))
        (demo_window [3, 4]\<lparr>batch_y := set_truth (batch_y (demo_window [3, 4])) 99\<rparr>) True)
     = Inr (99, 99, 3, [3, 4])
   \<and> map_sum id fst
     (proceed_onestep echo_env (trained_model (Some 0))
        (demo_window [3, 4]\<lparr>batch_y := set_truth (batch_y (demo_window [3, 4])) 4\<rparr>) True)
     = Inr (4, 4, 3, [3, 4])
   \<and> demo_window [3, 4]\<lparr>batch_y := set_truth (batch_y (demo_window [3, 4])) 4\<rparr>
     = demo_window [3, 4]
   \<and> map_sum id fst
     (proceed_onestep echo_env (trained_model (Some 0))
        (demo_window [3, 4]\<lparr>batch_y := set_truth (batch_y (demo_window [3, 4])) 99\<rparr>) True)
     \<noteq> map_sum id fst
     (proceed_onestep echo_env (trained_model (Some 0))
        (demo_window [3, 4]\<lparr>batch_y := set_truth (batch_y (demo_window [3, 4])) 4\<rparr>) True)"
  by (simp add: demo_set_truth echo_proceed_onestep) (simp add: demo_window_def)

text \<open>
  C1, amended. The truth reaches the returned predictions only through the
  collaborators. If the predictions the combiner returns for the window do not depend on
  the truth entry of the target tensor, and the prediction a configured adjuster returns
  does not depend on its truth argument, then the two calls return the same four
  predictions, or raise the same error. With no adjuster the second condition is void.
\<close>

theorem proceed_onestep_truth_only_via_collaborators:
  assumes cbm: "fst (cbm_proceed_onestep env (combiner_model self)
                       (b\<lparr>batch_y := set_truth (batch_y b) v\<rparr>) (Some training))
                = fst (cbm_proceed_onestep env (combiner_model self) b (Some training))"
    and adj: "\<forall>a y y' p. adjuster_model self = Some a \<longrightarrow>
                fst (adj_proceed_onestep env a y p training)
                = fst (adj_proceed_onestep env a y' p training)"
  shows "map_sum id fst
           (proceed_onestep env self (b\<lparr>batch_y := set_truth (batch_y b) v\<rparr>) training)
       = map_sum id fst (proceed_onestep env self b training)"
proof (cases "length (batch_x b) = 1 \<and> length (batch_y b) = 1")
  case False
  then show ?thesis
    by (auto simp: proceed_onestep_def length_set_truth)
next
  case True
  show ?thesis
  proof (cases "truth_of (batch_y b)")
    case (Inl e)
    then show ?thesis using True
      by (simp add: proceed_onestep_def length_set_truth truth_of_set_truth ebind_def)
  next
    case (Inr y)
    show ?thesis
    proof (cases "adjuster_model self")
      case None
      then show ?thesis using True Inr cbm
        by (simp add: proceed_onestep_def length_set_truth truth_of_set_truth ebind_def
              Let_def case_prod_beta split: option.splits)
    next
      case (Some a)
      then show ?thesis using True Inr cbm adj [rule_format, OF Some, of v _ y]
        by (simp add: proceed_onestep_def length_set_truth truth_of_set_truth ebind_def
              Let_def case_prod_beta split: option.splits)
    qed
  qed
qed

theorem proceed_onestep_truth_only_via_collaborators_witness:
  "map_sum id fst
     (proceed_onestep demo_env (trained_model (Some 5))
        (demo_window [3, 4]\<lparr>batch_y := set_truth (batch_y (demo_window [3, 4])) 99\<rparr>) True)
     = Inr (8, 8, 3, [3, 4])
   \<and> map_sum id fst
     (proceed_onestep demo_env (trained_model (Some 5)) (demo_window [3, 4]) True)
     = Inr (8, 8, 3, [3, 4])"
proof -
  have c: "fst (cbm_proceed_onestep demo_env (combiner_model (trained_model (Some 5)))
                 (demo_window [3, 4]\<lparr>batch_y := set_truth (batch_y (demo_window [3, 4])) 99\<rparr>)
                 (Some True))
         = fst (cbm_proceed_onestep demo_env (combiner_model (trained_model (Some 5)))
                 (demo_window [3, 4]) (Some True))"
    by (simp add: demo_env_def demo_cbm_step_def demo_window_def)
  have a: "\<forall>a y y' p. adjuster_model (trained_model (Some 5)) = Some a \<longrightarrow>
             fst (adj_proceed_onestep demo_env a y p True)
             = fst (adj_proceed_onestep demo_env a y' p True)"
    by (simp add: demo_env_def)
  have e: "proceed_onestep demo_env (trained_model (Some 5))
        (demo_window [3, 4]\<lparr>batch_y := set_truth (batch_y (demo_window [3, 4])) 99\<rparr>) True
       = Inr ((8, 8, 3, [3, 4]),
          \<lparr>configs = demo_configs, combiner_model = 3, adjuster_model = Some 96,
           y_hat = Some [1, 2, 8], truths = Some [20, 30, 99],
           y_hat_cbm = Some [1, 2, 3]\<rparr>)"
    using demo_proceed_onestep [of 5 99] by (simp add: demo_set_truth)
  show ?thesis
    using proceed_onestep_truth_only_via_collaborators [OF c a] e by simp
qed

section \<open>Auxiliary facts about the loops\<close>

lemma length_np_empty_like: "length (np_empty_like junk y) = length y"
  by (simp add: np_empty_like_def)

lemma fetch_batch_default: "collate_max_len lo = None \<Longrightarrow> fetch_batch lo b = Inr b"
  by (simp add: fetch_batch_def)

lemma fetch_batch_Inr_iff: "fetch_batch lo b = Inr b' \<longleftrightarrow> collate_max_len lo = None \<and> b' = b"
  by (auto simp: fetch_batch_def split: option.splits)

lemma fetch_batch_classification:
  "collate_max_len lo = Some n \<Longrightarrow> fetch_batch lo b = Inl NameError"
  by (simp add: fetch_batch_def)

lemma train_loop_classification:
  "collate_max_len lo = Some n \<Longrightarrow> train_loop env lo t (b # bs) (arr, c) = Inl NameError"
  by (simp add: fetch_batch_classification ebind_def)

lemma train_loop_Inr:
  "collate_max_len lo = None \<Longrightarrow> t + length bs \<le> length arr \<Longrightarrow>
     \<exists>arr' c'. train_loop env lo t bs (arr, c) = Inr (arr', c') \<and> length arr' = length arr"
proof (induction bs arbitrary: t arr c)
  case Nil
  then show ?case by simp
next
  case (Cons b bs)
  obtain p q c1 where s: "cbm_proceed_onestep env c b None = ((p, q), c1)"
    by (metis prod.exhaust)
  have "Suc t + length bs \<le> length (arr[t := p])"
    using Cons.prems by simp
  from Cons.IH [OF Cons.prems(1) this, of c1] show ?case
    using Cons.prems s by (simp add: assign_elem_def ebind_def fetch_batch_default)
qed

lemma train_loop_length:
  "train_loop env lo t bs (arr, c) = Inr (arr', c') \<Longrightarrow> length arr' = length arr"
proof (induction bs arbitrary: t arr c)
  case Nil
  then show ?case by simp
next
  case (Cons b bs)
  then show ?case
    by (auto simp: assign_elem_def ebind_def fetch_batch_def
             split: prod.splits if_splits sum.splits option.splits)
qed

lemma train_loop_no_assertion:
  "train_loop env lo t bs (arr, c) \<noteq> Inl AssertionError"
proof (induction bs arbitrary: t arr c)
  case Nil
  then show ?case by simp
next
  case (Cons b bs)
  then show ?case
    by (auto simp: assign_elem_def ebind_def fetch_batch_def
             split: prod.splits if_splits sum.splits option.splits)
qed

lemma train_Inr:
  assumes "train env junk (prov, self) = Inr (prov', self')"
  shows "\<exists>ds dl y arr c2.
           get_data_provider (Data env) prov (configs self) ''ensemble_train'' True
             = Inr ((ds, dl), prov')
         \<and> slice_col_last (seq_len (configs self)) (data_y (the_obj ds)) = Inr y
         \<and> length y = length (loader_batches env (the_obj dl))
         \<and> train_loop env (the_obj dl) 0 (loader_batches env (the_obj dl))
              (np_empty_like junk y, cbm_train env (combiner_model self)) = Inr (arr, c2)
         \<and> length arr = length y
         \<and> self' = self\<lparr>combiner_model := c2,
                adjuster_model :=
                  (case adjuster_model self of None \<Rightarrow> None
                   | Some a \<Rightarrow> Some (snd (adj_train env a y arr))),
                truths := Some y,
                y_hat := Some (case adjuster_model self of None \<Rightarrow> arr
                               | Some a \<Rightarrow> fst (adj_train env a y arr)),
                y_hat_cbm := Some arr\<rparr>"
  using assms
  apply (simp add: train_def ebind_def Let_def split: sum.splits prod.splits if_splits option.splits)
  apply (auto simp: length_np_empty_like)
   apply (frule train_loop_length, simp add: length_np_empty_like)+
  done

lemma ebind_Inr_iff: "ebind r f = Inr v \<longleftrightarrow> (\<exists>x. r = Inr x \<and> f x = Inr v)"
  by (cases r) (simp_all add: ebind_def)

lemma ebind_Inr [simp]: "ebind (Inr x) f = f x"
  by (simp add: ebind_def)

lemma ebind_Inl [simp]: "ebind (Inl e) f = Inl e"
  by (simp add: ebind_def)

lemma assign_elem_Inr_iff:
  "assign_elem xs t v = Inr ys \<longleftrightarrow> t < length xs \<and> ys = xs[t := v]"
  by (auto simp: assign_elem_def)

lemma test_loop_Cons_Inr:
  "test_loop env lo t (b # bs) (A, self) = Inr R \<longleftrightarrow>
     (\<exists>p_tabe p_adj p_cbm p_bsm s1 a4.
        collate_max_len lo = None
      \<and> proceed_onestep env self b True = Inr ((p_tabe, p_adj, p_cbm, p_bsm), s1)
      \<and> t < length (tabe_pred A) \<and> t < length (y_hat_adj A) \<and> t < length (y_hat_cbm_arr A)
      \<and> assign_col (y_hat_bsm A) t p_bsm = Inr a4
      \<and> test_loop env lo (Suc t) bs
           (\<lparr>tabe_pred = (tabe_pred A)[t := p_tabe], y_hat_adj = (y_hat_adj A)[t := p_adj],
             y_hat_cbm_arr = (y_hat_cbm_arr A)[t := p_cbm], y_hat_bsm = a4\<rparr>, s1) = Inr R)"
  by (simp add: ebind_Inr_iff assign_elem_Inr_iff fetch_batch_Inr_iff)

lemma proceed_onestep_history:
  assumes "proceed_onestep env self b training = Inr ((p_tabe, p_adj, p_cbm, p_bsm), s1)"
  shows "\<exists>y ht h hc.
           truth_of (batch_y b) = Inr y
         \<and> truths self = Some ht \<and> y_hat self = Some h \<and> y_hat_cbm self = Some hc
         \<and> truths s1 = Some (ht @ [y]) \<and> y_hat s1 = Some (h @ [p_tabe])
         \<and> y_hat_cbm s1 = Some (hc @ [p_cbm])
         \<and> p_adj = p_tabe
         \<and> (adjuster_model self = None \<longrightarrow> p_tabe = p_cbm \<and> adjuster_model s1 = None)"
proof -
  from assms obtain y hc h ht where
    t: "truth_of (batch_y b) = Inr y" "y_hat_cbm self = Some hc" "y_hat self = Some h"
       "truths self = Some ht"
    and r: "let out = cbm_proceed_onestep env (combiner_model self) b (Some training);
             p_cbm' = fst (fst out);
             adj = (case adjuster_model self of None \<Rightarrow> (p_cbm', None)
                    | Some a \<Rightarrow> (fst (adj_proceed_onestep env a y p_cbm' training),
                                 Some (snd (adj_proceed_onestep env a y p_cbm' training))))
         in (p_tabe, p_adj, p_cbm, p_bsm) = (fst adj, fst adj, p_cbm', snd (fst out)) \<and>
            s1 = self\<lparr>combiner_model := snd out, adjuster_model := snd adj,
                         y_hat_cbm := Some (hc @ [p_cbm']),
                         y_hat := Some (h @ [fst adj]),
                         truths := Some (ht @ [y])\<rparr>"
    unfolding proceed_onestep_Inr by blast
  from r have "truths s1 = Some (ht @ [y])" "y_hat s1 = Some (h @ [p_tabe])"
     "y_hat_cbm s1 = Some (hc @ [p_cbm])" "p_adj = p_tabe"
     "adjuster_model self = None \<longrightarrow> p_tabe = p_cbm \<and> adjuster_model s1 = None"
    by (simp_all add: Let_def)
  with t show ?thesis
    by (intro exI [of _ y] exI [of _ ht] exI [of _ h] exI [of _ hc]) simp
qed

lemma test_loop_history:
  "test_loop env lo t bs (A, self) = Inr (A', self') \<Longrightarrow>
     \<exists>py pt pc.
       length py = length bs \<and> length pt = length bs \<and> length pc = length bs
     \<and> truths self' = map_option (\<lambda>h. h @ py) (truths self)
     \<and> y_hat self' = map_option (\<lambda>h. h @ pt) (y_hat self)
     \<and> y_hat_cbm self' = map_option (\<lambda>h. h @ pc) (y_hat_cbm self)
     \<and> (adjuster_model self = None \<longrightarrow> pt = pc \<and> adjuster_model self' = None)"
proof (induction bs arbitrary: t A self)
  case Nil
  then show ?case by (simp add: option.map_ident)
next
  case (Cons b bs)
  from Cons.prems obtain p_tabe p_adj p_cbm p_bsm s1 A1 where
    step: "proceed_onestep env self b True = Inr ((p_tabe, p_adj, p_cbm, p_bsm), s1)"
    and rest: "test_loop env lo (Suc t) bs (A1, s1) = Inr (A', self')"
    unfolding test_loop_Cons_Inr by blast
  from Cons.IH [OF rest] obtain py pt pc where
    ih: "length py = length bs" "length pt = length bs" "length pc = length bs"
      "truths self' = map_option (\<lambda>h. h @ py) (truths s1)"
      "y_hat self' = map_option (\<lambda>h. h @ pt) (y_hat s1)"
      "y_hat_cbm self' = map_option (\<lambda>h. h @ pc) (y_hat_cbm s1)"
      "adjuster_model s1 = None \<longrightarrow> pt = pc \<and> adjuster_model self' = None"
    by (elim exE conjE) (rule that)
  from proceed_onestep_history [OF step] obtain y ht h hc where
    st: "truths self = Some ht" "y_hat self = Some h" "y_hat_cbm self = Some hc"
        "truths s1 = Some (ht @ [y])" "y_hat s1 = Some (h @ [p_tabe])"
        "y_hat_cbm s1 = Some (hc @ [p_cbm])"
        "adjuster_model self = None \<longrightarrow> p_tabe = p_cbm \<and> adjuster_model s1 = None"
    by (elim exE conjE) (rule that)
  have "length (y # py) = length (b # bs) \<and> length (p_tabe # pt) = length (b # bs)
      \<and> length (p_cbm # pc) = length (b # bs)
      \<and> truths self' = map_option (\<lambda>h. h @ (y # py)) (truths self)
      \<and> y_hat self' = map_option (\<lambda>h. h @ (p_tabe # pt)) (y_hat self)
      \<and> y_hat_cbm self' = map_option (\<lambda>h. h @ (p_cbm # pc)) (y_hat_cbm self)
      \<and> (adjuster_model self = None \<longrightarrow> p_tabe # pt = p_cbm # pc \<and> adjuster_model self' = None)"
    using ih st by simp
  then show ?case
    by (intro exI [of _ "y # py"] exI [of _ "p_tabe # pt"] exI [of _ "p_cbm # pc"])
qed

lemma test_loop_arrays:
  "test_loop env lo t bs (A, self) = Inr (A', self') \<Longrightarrow>
     length (tabe_pred A') = length (tabe_pred A)
   \<and> length (y_hat_cbm_arr A') = length (y_hat_cbm_arr A)
   \<and> (bs \<noteq> [] \<longrightarrow> t + length bs \<le> length (tabe_pred A))"
proof (induction bs arbitrary: t A self)
  case Nil
  then show ?case by simp
next
  case (Cons b bs)
  from Cons.prems obtain s1 A1 where
    rest: "test_loop env lo (Suc t) bs (A1, s1) = Inr (A', self')"
    and a1: "length (tabe_pred A1) = length (tabe_pred A)"
            "length (y_hat_cbm_arr A1) = length (y_hat_cbm_arr A)"
            "t < length (tabe_pred A)"
    unfolding test_loop_Cons_Inr by fastforce
  from Cons.IH [OF rest] a1 show ?case
    by (cases bs) auto
qed

lemma test_loop_bypass:
  "test_loop env lo t bs (A, self) = Inr (A', self') \<Longrightarrow> adjuster_model self = None \<Longrightarrow>
   take t (tabe_pred A) = take t (y_hat_cbm_arr A) \<Longrightarrow>
   take (t + length bs) (tabe_pred A') = take (t + length bs) (y_hat_cbm_arr A')"
proof (induction bs arbitrary: t A self)
  case Nil
  then show ?case by simp
next
  case (Cons b bs)
  from Cons.prems(1) obtain p_tabe p_adj p_cbm p_bsm s1 a2 a4 where
    step: "proceed_onestep env self b True = Inr ((p_tabe, p_adj, p_cbm, p_bsm), s1)"
    and lt: "t < length (tabe_pred A)" "t < length (y_hat_cbm_arr A)"
    and rest: "test_loop env lo (Suc t) bs
                 (\<lparr>tabe_pred = (tabe_pred A)[t := p_tabe], y_hat_adj = a2,
                   y_hat_cbm_arr = (y_hat_cbm_arr A)[t := p_cbm], y_hat_bsm = a4\<rparr>, s1)
               = Inr (A', self')"
    unfolding test_loop_Cons_Inr by blast
  from step Cons.prems(2) have eq: "p_tabe = p_cbm" and none: "adjuster_model s1 = None"
    unfolding proceed_onestep_Inr by (auto simp: Let_def)
  have "take (Suc t) ((tabe_pred A)[t := p_tabe]) = take (Suc t) ((y_hat_cbm_arr A)[t := p_cbm])"
    using lt eq Cons.prems(3) by (simp add: take_Suc_conv_app_nth)
  from Cons.IH [OF rest none] this show ?case by simp
qed

lemma test_Inr:
  assumes "test env junk (prov, self) = Inr (res, prov', self')"
  shows "\<exists>ts ld y A.
           get_data_provider (Data env) prov (configs self) ''test'' True = Inr ((ts, ld), prov')
         \<and> slice_col_last (seq_len (configs self)) (data_y (the_obj ts)) = Inr y
         \<and> test_loop env (the_obj ld) 0 (loader_batches env (the_obj ld))
              (test_arrays0 junk (cbm_basemodels env (combiner_model self)) y, self)
              = Inr (A, self')
         \<and> (if scale (the_obj ts) \<and> inverse_cfg (configs self)
             then test_invert (the_obj ts) y A
                    = Inr (res_y res, res_tabe_pred res, res_y_hat_cbm res, res_y_hat_bsm res)
             else res_y res = y \<and> res_tabe_pred res = tabe_pred A
                \<and> res_y_hat_cbm res = y_hat_cbm_arr A \<and> res_y_hat_bsm res = y_hat_bsm A)
         \<and> res_y_hat_q_low res = np_empty_like (junk_y_hat_q_low junk) y
         \<and> res_y_hat_q_high res = np_empty_like (junk_y_hat_q_high junk) y
         \<and> res_devi_stddev res = np_empty_like (junk_devi_stddev junk) y
         \<and> res_threshold res = None"
proof -
  from assms obtain ts ld y A y2 tp2 yc2 bsm2 where
    g: "get_data_provider (Data env) prov (configs self) ''test'' True = Inr ((ts, ld), prov')"
    and y: "slice_col_last (seq_len (configs self)) (data_y (the_obj ts)) = Inr y"
    and l: "test_loop env (the_obj ld) 0 (loader_batches env (the_obj ld))
              (test_arrays0 junk (cbm_basemodels env (combiner_model self)) y, self)
              = Inr (A, self')"
    and i: "(if scale (the_obj ts) \<and> inverse_cfg (configs self)
             then test_invert (the_obj ts) y A
             else Inr (y, tabe_pred A, y_hat_cbm_arr A, y_hat_bsm A)) = Inr (y2, tp2, yc2, bsm2)"
    and r: "res = \<lparr>res_y = y2, res_tabe_pred = tp2, res_y_hat_cbm = yc2, res_y_hat_bsm = bsm2,
                   res_y_hat_q_low = np_empty_like (junk_y_hat_q_low junk) y,
                   res_y_hat_q_high = np_empty_like (junk_y_hat_q_high junk) y,
                   res_threshold = None,
                   res_devi_stddev = np_empty_like (junk_devi_stddev junk) y\<rparr>"
    by (auto simp: test_def ebind_Inr_iff Let_def)
  show ?thesis
    apply (intro exI [of _ ts] exI [of _ ld] exI [of _ y] exI [of _ A])
    using g y l i r by (auto split: if_splits)
qed


lemma demo_gdp:
  "get_data_provider (Data demo_env) empty_provider (configs (demo_model adj)) flag True
     = Inr (((0, demo_dataset), (Suc 0, demo_loader)), demo_provider (cache_key flag True))"
  using demo_get_data_provider [of flag]
  by (simp add: demo_env_def demo_model_def init_def demo_loader_def demo_provider_def)

lemma demo_slice:
  "slice_col_last (seq_len (configs (demo_model adj))) (data_y (the_obj (0, demo_dataset)))
     = Inr [20, 30]"
  by (simp add: slice_col_last_def col_last_def py_slice_from_def demo_model_def init_def
        demo_configs_def demo_dataset_def the_obj_def)

lemma demo_loader_batches:
  "loader_batches demo_env (the_obj (Suc 0, demo_loader)) = [demo_window [1, 20], demo_window [2, 30]]"
  by (simp add: demo_env_def demo_batches_def demo_loader_def the_obj_def demo_dataset_def)

lemma mismatch_gdp:
  "get_data_provider (Data mismatch_env) empty_provider (configs (demo_model adj)) flag True
     = Inr (((0, demo_dataset), (Suc 0, demo_loader)), demo_provider (cache_key flag True))"
  using demo_gdp [of adj flag] by (simp add: mismatch_env_def)

lemma mismatch_loader_batches:
  "loader_batches mismatch_env (the_obj (Suc 0, demo_loader)) = [demo_window [1, 20]]"
  by (simp add: mismatch_env_def demo_batches_def demo_loader_def the_obj_def demo_dataset_def)


lemma demo_env_fields:
  "Data demo_env = demo_Data"
  "loader_batches demo_env = demo_batches"
  "cbm_train demo_env = (\<lambda>c. c)"
  "cbm_proceed_onestep demo_env = demo_cbm_step"
  "cbm_basemodels demo_env = (\<lambda>c. 2)"
  "adj_train demo_env = (\<lambda>a y yc. (yc, a))"
  "adj_proceed_onestep demo_env = (\<lambda>a y yc training. (yc + a, y - yc))"
  by (simp_all add: demo_env_def)

lemma demo_loader_collate: "collate_max_len (the_obj (Suc 0, demo_loader)) = None"
  by (simp add: the_obj_def demo_loader_def)

lemma demo_train_loop:
  "train_loop demo_env (the_obj (Suc 0, demo_loader)) 0
     [demo_window [1, 20], demo_window [2, 30]] ([j0, j1], c)
     = Inr ([1, 2], Suc (Suc c))"
  by (simp add: demo_env_fields demo_cbm_step_def demo_window_def assign_elem_def
        fetch_batch_default [OF demo_loader_collate])

lemma demo_model_fields:
  "configs (demo_model adj) = demo_configs"
  "combiner_model (demo_model adj) = 0"
  "adjuster_model (demo_model adj) = adj"
  by (simp_all add: demo_model_def init_def)

lemma demo_train:
  "train demo_env junk (empty_provider, demo_model None)
     = Inr (demo_provider ''ensemble_train_stb'',
            \<lparr>configs = demo_configs, combiner_model = 2, adjuster_model = None,
             y_hat = Some [1, 2], truths = Some [20, 30], y_hat_cbm = Some [1, 2]\<rparr>)"
proof -
  have e: "np_empty_like junk [20, 30 :: int] = [junk 0, junk 1]"
    by (simp add: np_empty_like_def upt_rec)
  show ?thesis
    unfolding train_def
    by (simp add: demo_gdp demo_slice demo_loader_batches e demo_train_loop cache_key_def
          demo_env_fields(3) demo_model_fields(2,3) del: train_loop.simps)
       (simp add: demo_model_def init_def numeral_2_eq_2)
qed

section \<open>\<open>train\<close>\<close>

lemma length_collected: "length (collected env c bs) = length bs"
  by (induction bs arbitrary: c) simp_all

lemma train_loop_collected:
  "train_loop env lo t bs (arr, c) = Inr (arr', c') \<Longrightarrow>
     arr' = take t arr @ collected env c bs @ drop (t + length bs) arr"
proof (induction bs arbitrary: t arr c)
  case Nil
  then show ?case by simp
next
  case (Cons b bs)
  obtain p q c1 where s: "cbm_proceed_onestep env c b None = ((p, q), c1)"
    by (metis prod.exhaust)
  from Cons.prems s have lt: "t < length arr"
    and rest: "train_loop env lo (Suc t) bs (arr[t := p], c1) = Inr (arr', c')"
    by (auto simp: ebind_Inr_iff fetch_batch_Inr_iff assign_elem_Inr_iff)
  from Cons.IH [OF rest] lt s show ?case
    by (simp add: take_Suc_conv_app_nth)
qed

text \<open>
  C7. Once the loader and the truths \<open>y\<close> are there, \<open>train\<close> ends in an
  \<open>AssertionError\<close> exactly when the number of truths differs from the number of
  loader steps; no state is returned then, and with equal numbers the assertion cannot
  be what fails. Whenever \<open>train\<close> returns, the numbers agree and the combiner series
  it stores is the predictions collected over the loader steps, as many as the truths.
\<close>

theorem train_length_assertion:
  assumes gdp: "get_data_provider (Data env) prov (configs self) ''ensemble_train'' True
                  = Inr ((ds, dl), prov')"
    and y: "slice_col_last (seq_len (configs self)) (data_y (the_obj ds)) = Inr y"
  shows "(train env junk (prov, self) = Inl AssertionError
            \<longleftrightarrow> length y \<noteq> length (loader_batches env (the_obj dl)))
       \<and> (train env junk (prov, self) = Inr (prov1, self1) \<longrightarrow>
            length y = length (loader_batches env (the_obj dl))
          \<and> truths self1 = Some y
          \<and> y_hat_cbm self1
              = Some (collected env (cbm_train env (combiner_model self))
                        (loader_batches env (the_obj dl)))
          \<and> length (collected env (cbm_train env (combiner_model self))
                       (loader_batches env (the_obj dl))) = length y)"
proof (intro conjI impI)
  show "train env junk (prov, self) = Inl AssertionError
          \<longleftrightarrow> length y \<noteq> length (loader_batches env (the_obj dl))"
    using gdp y train_loop_no_assertion
      [of env "the_obj dl" 0 "loader_batches env (the_obj dl)" "np_empty_like junk y"
          "cbm_train env (combiner_model self)"]
    by (cases "train_loop env (the_obj dl) 0 (loader_batches env (the_obj dl))
                 (np_empty_like junk y, cbm_train env (combiner_model self))")
       (auto simp: train_def Let_def split: option.splits prod.splits)
next
  assume r: "train env junk (prov, self) = Inr (prov1, self1)"
  from train_Inr [OF r] gdp y obtain arr c2 where
    n: "length y = length (loader_batches env (the_obj dl))"
    and lp: "train_loop env (the_obj dl) 0 (loader_batches env (the_obj dl))
           (np_empty_like junk y, cbm_train env (combiner_model self)) = Inr (arr, c2)"
    and t: "truths self1 = Some y" and c: "y_hat_cbm self1 = Some arr"
    by auto
  have "arr = collected env (cbm_train env (combiner_model self))
                (loader_batches env (the_obj dl))"
    using train_loop_collected [OF lp] n by (simp add: length_np_empty_like)
  with n t c
  show "length y = length (loader_batches env (the_obj dl))" "truths self1 = Some y"
    "y_hat_cbm self1
       = Some (collected env (cbm_train env (combiner_model self))
                 (loader_batches env (the_obj dl)))"
    "length (collected env (cbm_train env (combiner_model self))
               (loader_batches env (the_obj dl))) = length y"
    by (simp_all add: length_collected)
qed

theorem train_length_assertion_witness:
  "train mismatch_env demo_train_junk (empty_provider, demo_model None) = Inl AssertionError
   \<and> train demo_env demo_train_junk (empty_provider, demo_model None)
       = Inr (demo_provider ''ensemble_train_stb'', trained_model None)
   \<and> y_hat_cbm (trained_model None)
       = Some (collected demo_env 0 [demo_window [1, 20], demo_window [2, 30]])
   \<and> collected demo_env 0 [demo_window [1, 20], demo_window [2, 30]] = [1, 2]"
proof -
  have c: "collected demo_env 0 [demo_window [1, 20], demo_window [2, 30]] = [1, 2]"
    by (simp add: demo_env_fields demo_cbm_step_def demo_window_def)
  have d: "train demo_env demo_train_junk (empty_provider, demo_model None)
       = Inr (demo_provider ''ensemble_train_stb'', trained_model None)"
    by (simp add: demo_train trained_model_def)
  have m: "train mismatch_env demo_train_junk (empty_provider, demo_model None)
             = Inl AssertionError"
    using train_length_assertion [OF mismatch_gdp demo_slice,
            where junk = demo_train_junk and adj1 = None, THEN conjunct1]
    by (simp add: mismatch_loader_batches)
  have k: "y_hat_cbm (trained_model None)
       = Some (collected demo_env 0 [demo_window [1, 20], demo_window [2, 30]])"
    using train_length_assertion [OF demo_gdp demo_slice,
            where junk = demo_train_junk and adj1 = None, THEN conjunct2, rule_format, OF d]
    by (simp add: demo_loader_batches demo_env_fields(3) demo_model_fields(2))
  show ?thesis using c d m k by simp
qed

section \<open>\<open>test\<close>\<close>

lemma test_arrays0_lengths:
  "length (tabe_pred (test_arrays0 junk nb y)) = length y"
  "length (y_hat_adj (test_arrays0 junk nb y)) = length y"
  "length (y_hat_cbm_arr (test_arrays0 junk nb y)) = length y"
  by (simp_all add: test_arrays0_def length_np_empty_like)

lemma test_invert_Inr:
  assumes "test_invert ts y A = Inr (y', tp', yc', bsm')"
  shows "\<exists>d1 d2 d3.
           set_col_last (np_zeros (length y) (ncols (data_y ts))) y = Inr d1
         \<and> set_col_last (np_zeros (length y) (ncols (data_y ts))) (tabe_pred A) = Inr d2
         \<and> set_col_last (np_zeros (length y) (ncols (data_y ts))) (y_hat_cbm_arr A) = Inr d3
         \<and> col_last (inverse_transform ts d1) = Inr y'
         \<and> col_last (inverse_transform ts d2) = Inr tp'
         \<and> col_last (inverse_transform ts d3) = Inr yc'
         \<and> invert_bsm ts (length y') (ncols (data_y ts))
              [0..<length (rows (y_hat_bsm A))] (y_hat_bsm A) = Inr bsm'"
  using assms by (simp add: test_invert_def ebind_Inr_iff Let_def)

text \<open>
  C10. Whenever \<open>test\<close> returns, its seventh result is \<open>None\<close>, and its fifth, sixth
  and eighth results are the buffers of \<open>np.empty_like(y)\<close> exactly as they were
  allocated: cell \<open>i\<close> holds the uninitialised content \<open>junk i\<close>, whatever the
  collaborators predicted and whatever the truths were. Only their length comes from \<open>y\<close>.
\<close>

theorem test_unwritten_results:
  assumes "test env junk (prov, self) = Inr (res, prov', self')"
  shows "res_threshold res = None
       \<and> (\<exists>ts ld y.
             get_data_provider (Data env) prov (configs self) ''test'' True
               = Inr ((ts, ld), prov')
           \<and> slice_col_last (seq_len (configs self)) (data_y (the_obj ts)) = Inr y
           \<and> res_y_hat_q_low res = map (junk_y_hat_q_low junk) [0..<length y]
           \<and> res_y_hat_q_high res = map (junk_y_hat_q_high junk) [0..<length y]
           \<and> res_devi_stddev res = map (junk_devi_stddev junk) [0..<length y])"
proof -
  from test_Inr [OF assms] obtain ts ld y where
    "get_data_provider (Data env) prov (configs self) ''test'' True = Inr ((ts, ld), prov')"
    "slice_col_last (seq_len (configs self)) (data_y (the_obj ts)) = Inr y"
    "res_y_hat_q_low res = np_empty_like (junk_y_hat_q_low junk) y"
    "res_y_hat_q_high res = np_empty_like (junk_y_hat_q_high junk) y"
    "res_devi_stddev res = np_empty_like (junk_devi_stddev junk) y"
    "res_threshold res = None"
    by (elim exE conjE) (rule that)
  then show ?thesis
    by (intro conjI exI [of _ ts] exI [of _ ld] exI [of _ y]) (simp_all add: np_empty_like_def)
qed

text \<open>
  C2. With no adjuster: after \<open>train\<close> the ensemble series is the combiner series;
  every \<open>proceed_onestep\<close> returns the combiner prediction as ensemble and as adjusted
  prediction and appends the same value to both series; \<open>test\<close> appends the same
  values \<open>ps\<close>, one per loader step, to both series, the two returned arrays agree at
  every step index when nothing is inverted, and they are equal as a whole when the loader
  has as many steps as there are truths (then also after the inversion).
\<close>

theorem adjuster_bypass:
  assumes none: "adjuster_model self = None"
  shows "(train env junk (prov, self) = Inr (prov1, self1) \<longrightarrow>
            y_hat self1 = y_hat_cbm self1 \<and> y_hat self1 \<noteq> None)
       \<and> (proceed_onestep env self b training = Inr ((p_tabe, p_adj, p_cbm, p_bsm), self2) \<longrightarrow>
            p_tabe = p_cbm \<and> p_adj = p_cbm
          \<and> (\<exists>h hc. y_hat self = Some h \<and> y_hat_cbm self = Some hc
                \<and> y_hat self2 = Some (h @ [p_cbm]) \<and> y_hat_cbm self2 = Some (hc @ [p_cbm])))
       \<and> (test env tjunk (prov, self) = Inr (res, prov3, self3) \<longrightarrow>
            (\<exists>ts ld y ps.
               get_data_provider (Data env) prov (configs self) ''test'' True
                 = Inr ((ts, ld), prov3)
             \<and> slice_col_last (seq_len (configs self)) (data_y (the_obj ts)) = Inr y
             \<and> length ps = length (loader_batches env (the_obj ld))
             \<and> y_hat self3 = map_option (\<lambda>h. h @ ps) (y_hat self)
             \<and> y_hat_cbm self3 = map_option (\<lambda>h. h @ ps) (y_hat_cbm self)
             \<and> (\<not> (scale (the_obj ts) \<and> inverse_cfg (configs self)) \<longrightarrow>
                  take (length ps) (res_tabe_pred res) = take (length ps) (res_y_hat_cbm res))
             \<and> (length ps = length y \<longrightarrow> res_tabe_pred res = res_y_hat_cbm res)))"
proof (intro conjI impI)
  assume "train env junk (prov, self) = Inr (prov1, self1)"
  from train_Inr [OF this] none show "y_hat self1 = y_hat_cbm self1" "y_hat self1 \<noteq> None"
    by auto
next
  assume "proceed_onestep env self b training = Inr ((p_tabe, p_adj, p_cbm, p_bsm), self2)"
  from proceed_onestep_history [OF this] none
  show "p_tabe = p_cbm" "p_adj = p_cbm"
    "\<exists>h hc. y_hat self = Some h \<and> y_hat_cbm self = Some hc
       \<and> y_hat self2 = Some (h @ [p_cbm]) \<and> y_hat_cbm self2 = Some (hc @ [p_cbm])"
    by auto
next
  assume t: "test env tjunk (prov, self) = Inr (res, prov3, self3)"
  let ?nb = "cbm_basemodels env (combiner_model self)"
  from test_Inr [OF t] obtain ts ld y A where
    g: "get_data_provider (Data env) prov (configs self) ''test'' True = Inr ((ts, ld), prov3)"
    and y: "slice_col_last (seq_len (configs self)) (data_y (the_obj ts)) = Inr y"
    and l: "test_loop env (the_obj ld) 0 (loader_batches env (the_obj ld)) (test_arrays0 tjunk ?nb y, self)
              = Inr (A, self3)"
    and i: "if scale (the_obj ts) \<and> inverse_cfg (configs self)
             then test_invert (the_obj ts) y A
                    = Inr (res_y res, res_tabe_pred res, res_y_hat_cbm res, res_y_hat_bsm res)
             else res_y res = y \<and> res_tabe_pred res = tabe_pred A
                \<and> res_y_hat_cbm res = y_hat_cbm_arr A \<and> res_y_hat_bsm res = y_hat_bsm A"
    by (elim exE conjE) (rule that)
  let ?n = "length (loader_batches env (the_obj ld))"
  from test_loop_history [OF l] none obtain ps where
    ps: "length ps = ?n"
      "y_hat self3 = map_option (\<lambda>h. h @ ps) (y_hat self)"
      "y_hat_cbm self3 = map_option (\<lambda>h. h @ ps) (y_hat_cbm self)"
    by auto
  have tk: "take ?n (tabe_pred A) = take ?n (y_hat_cbm_arr A)"
    using test_loop_bypass [OF l none] by simp
  have len: "length (tabe_pred A) = length y" "length (y_hat_cbm_arr A) = length y"
    using test_loop_arrays [OF l] by (simp_all add: test_arrays0_lengths)
  have a: "\<not> (scale (the_obj ts) \<and> inverse_cfg (configs self)) \<longrightarrow>
             take (length ps) (res_tabe_pred res) = take (length ps) (res_y_hat_cbm res)"
    using i tk ps(1) by auto
  have b: "length ps = length y \<longrightarrow> res_tabe_pred res = res_y_hat_cbm res"
  proof
    assume "length ps = length y"
    with tk len ps(1) have e: "tabe_pred A = y_hat_cbm_arr A" by simp
    show "res_tabe_pred res = res_y_hat_cbm res"
    proof (cases "scale (the_obj ts) \<and> inverse_cfg (configs self)")
      case False
      with i e show ?thesis by simp
    next
      case True
      with i have "test_invert (the_obj ts) y A
                    = Inr (res_y res, res_tabe_pred res, res_y_hat_cbm res, res_y_hat_bsm res)"
        by simp
      from test_invert_Inr [OF this] e show ?thesis by auto
    qed
  qed
  show "\<exists>ts ld y ps.
               get_data_provider (Data env) prov (configs self) ''test'' True
                 = Inr ((ts, ld), prov3)
             \<and> slice_col_last (seq_len (configs self)) (data_y (the_obj ts)) = Inr y
             \<and> length ps = length (loader_batches env (the_obj ld))
             \<and> y_hat self3 = map_option (\<lambda>h. h @ ps) (y_hat self)
             \<and> y_hat_cbm self3 = map_option (\<lambda>h. h @ ps) (y_hat_cbm self)
             \<and> (\<not> (scale (the_obj ts) \<and> inverse_cfg (configs self)) \<longrightarrow>
                  take (length ps) (res_tabe_pred res) = take (length ps) (res_y_hat_cbm res))
             \<and> (length ps = length y \<longrightarrow> res_tabe_pred res = res_y_hat_cbm res)"
    using g y ps a b
    by (intro exI [of _ ts] exI [of _ ld] exI [of _ y] exI [of _ ps]) simp
qed

lemma upt_2: "[0..<2] = [0, Suc 0]"
  by (simp add: upt_rec)

lemma demo_test_arrays0:
  "test_arrays0 demo_junk 2 [20, 30 :: int] =
     \<lparr>tabe_pred = [101, 101], y_hat_adj = [102, 102], y_hat_cbm_arr = [103, 103],
      y_hat_bsm = \<lparr>ncols = 2, rows = [[104, 104], [104, 104]]\<rparr>\<rparr>"
  by (simp add: test_arrays0_def np_empty_like_def np_empty2_def demo_junk_def upt_2)

lemma demo_step1:
  "proceed_onestep demo_env (trained_model None) (demo_window [1, 20]) True =
     Inr ((1, 1, 1, [1, 2]),
          \<lparr>configs = demo_configs, combiner_model = 3, adjuster_model = None,
           y_hat = Some [1, 2, 1], truths = Some [20, 30, 20], y_hat_cbm = Some [1, 2, 1]\<rparr>)"
  by (simp add: proceed_onestep_def demo_env_fields trained_model_def demo_window_def
        demo_cbm_step_def truth_of_def)

lemma demo_step2:
  "proceed_onestep demo_env
     \<lparr>configs = demo_configs, combiner_model = 3, adjuster_model = None,
      y_hat = Some [1, 2, 1], truths = Some [20, 30, 20], y_hat_cbm = Some [1, 2, 1]\<rparr>
     (demo_window [2, 30]) True =
     Inr ((2, 2, 2, [2, 3]), tested_model)"
  by (simp add: proceed_onestep_def demo_env_fields tested_model_def demo_window_def
        demo_cbm_step_def truth_of_def)

lemma demo_test_loop:
  "test_loop demo_env (the_obj (Suc 0, demo_loader)) 0
     [demo_window [1, 20], demo_window [2, 30]]
     (test_arrays0 demo_junk 2 [20, 30], trained_model None) = Inr (demo_arrays, tested_model)"
  by (simp add: demo_test_arrays0 demo_step1 demo_step2 assign_elem_def assign_col_def
        np_broadcast_def demo_arrays_def fetch_batch_default [OF demo_loader_collate])

lemma demo_test_invert:
  "test_invert demo_dataset [20, 30] demo_arrays
     = Inr ([41, 61], [3, 5], [3, 5], \<lparr>ncols = 2, rows = [[3, 5], [5, 7]]\<rparr>)"
  by (simp add: test_invert_def demo_arrays_def demo_dataset_def set_col_last_def
        assign_col_def assign_row_def np_broadcast_def np_zeros_def col_last_def upt_2
        numeral_2_eq_2)

lemma trained_model_fields:
  "configs (trained_model adj) = demo_configs"
  "combiner_model (trained_model adj) = 2"
  "adjuster_model (trained_model adj) = adj"
  "y_hat (trained_model adj) = Some [1, 2]"
  "truths (trained_model adj) = Some [20, 30]"
  "y_hat_cbm (trained_model adj) = Some [1, 2]"
  by (simp_all add: trained_model_def)

lemma demo_gdp_trained:
  "get_data_provider (Data demo_env) empty_provider (configs (trained_model adj)) flag True
     = Inr (((0, demo_dataset), (Suc 0, demo_loader)), demo_provider (cache_key flag True))"
  using demo_gdp [of None flag] by (simp add: demo_model_fields trained_model_fields)

lemma demo_slice_trained:
  "slice_col_last (seq_len (configs (trained_model adj))) (data_y (the_obj (0, demo_dataset)))
     = Inr [20, 30]"
  using demo_slice [of None] by (simp add: demo_model_fields trained_model_fields)

lemma demo_need_to_invert:
  "scale demo_dataset" "inverse_cfg (configs (trained_model adj))"
  by (simp_all add: demo_dataset_def trained_model_fields demo_configs_def)

lemma demo_test:
  "test demo_env demo_junk (empty_provider, trained_model None)
     = Inr (demo_result, demo_provider ''test_stb'', tested_model)"
proof -
  have q: "np_empty_like (junk_y_hat_q_low demo_junk) [20, 30 :: int] = [105, 106]"
          "np_empty_like (junk_y_hat_q_high demo_junk) [20, 30 :: int] = [106, 106]"
          "np_empty_like (junk_devi_stddev demo_junk) [20, 30 :: int] = [107, 107]"
    by (simp_all add: np_empty_like_def demo_junk_def upt_2)
  have o: "the_obj (0, demo_dataset) = demo_dataset"
    by (simp add: the_obj_def)
  show ?thesis
    unfolding test_def
    by (simp add: demo_gdp_trained demo_slice_trained [unfolded o] demo_need_to_invert
          demo_loader_batches demo_env_fields(5) trained_model_fields(2) q
          demo_test_loop o demo_test_invert cache_key_def demo_result_def Let_def
          del: test_loop.simps)
qed

theorem test_unwritten_results_witness:
  "res_threshold demo_result = None
   \<and> res_y_hat_q_low demo_result = map (junk_y_hat_q_low demo_junk) [0..<2]
   \<and> res_y_hat_q_high demo_result = map (junk_y_hat_q_high demo_junk) [0..<2]
   \<and> res_devi_stddev demo_result = map (junk_devi_stddev demo_junk) [0..<2]
   \<and> res_y_hat_q_low demo_result = [105, 106]"
  using test_unwritten_results [OF demo_test]
  by (simp add: demo_gdp_trained demo_slice_trained demo_result_def demo_junk_def upt_2
        cache_key_def)

lemma map2_replicate:
  "map2 f (replicate (length s) c) s = map (f c) s"
  by (induction s) simp_all

lemma replicate_Suc_update_last:
  "(replicate (Suc m) c)[m := x] = replicate m c @ [x]"
  by (induction m) simp_all

lemma replicate_update_last:
  "0 < n \<Longrightarrow> (replicate n c)[n - Suc 0 := x] = replicate (n - Suc 0) c @ [x]"
  using replicate_Suc_update_last [of "n - Suc 0" c x] by simp

lemma set_col_last_zeros:
  assumes "0 < nf"
  shows "set_col_last (np_zeros (length s) nf) s = Inr (embed_target nf s)"
  using assms
  by (simp add: set_col_last_def assign_col_def np_zeros_def np_broadcast_def embed_target_def
        map2_replicate replicate_update_last)

lemma slice_col_last_Inr:
  "slice_col_last k a = Inr y \<Longrightarrow> 0 < ncols a \<and> y = py_slice_from k (map last (rows a))"
  by (auto simp: slice_col_last_def col_last_def py_slice_from_def drop_map split: if_splits)

lemma np_broadcast_Inr_length: "np_broadcast n v = Inr w \<Longrightarrow> length w = n"
  by (auto simp: np_broadcast_def split: if_splits)

lemma np_broadcast_same: "length v = n \<Longrightarrow> np_broadcast n v = Inr v"
  by (simp add: np_broadcast_def)

lemma wf_np_empty2:
  "wf_array2 (np_empty2 junk r c)" "ncols (np_empty2 junk r c) = c"
  "length (rows (np_empty2 junk r c)) = r"
  by (auto simp: wf_array2_def np_empty2_def)

lemma assign_col_wf:
  assumes "assign_col a t v = Inr a'" "wf_array2 a"
  shows "wf_array2 a' \<and> ncols a' = ncols a \<and> length (rows a') = length (rows a)"
proof -
  from assms(1) obtain w where
    w: "np_broadcast (length (rows a)) v = Inr w"
    and a': "a' = a\<lparr>rows := map2 (\<lambda>r x. r[t := x]) (rows a) w\<rparr>"
    by (auto simp: assign_col_def ebind_Inr_iff split: if_splits)
  have lw: "length w = length (rows a)"
    using np_broadcast_Inr_length [OF w] .
  have "\<forall>r \<in> set (map2 (\<lambda>r x. r[t := x]) (rows a) w). length r = ncols a"
    using assms(2) by (auto simp: wf_array2_def dest!: set_zip_leftD)
  then show ?thesis using a' lw by (simp add: wf_array2_def)
qed

lemma test_loop_bsm:
  "test_loop env lo t bs (A, self) = Inr (A', self') \<Longrightarrow> wf_array2 (y_hat_bsm A) \<Longrightarrow>
     wf_array2 (y_hat_bsm A') \<and> ncols (y_hat_bsm A') = ncols (y_hat_bsm A)
   \<and> length (rows (y_hat_bsm A')) = length (rows (y_hat_bsm A))"
proof (induction bs arbitrary: t A self)
  case Nil
  then show ?case by simp
next
  case (Cons b bs)
  from Cons.prems(1) obtain p_bsm a4 a1 a2 a3 s1 where
    c: "assign_col (y_hat_bsm A) t p_bsm = Inr a4"
    and rest: "test_loop env lo (Suc t) bs
                 (\<lparr>tabe_pred = a1, y_hat_adj = a2, y_hat_cbm_arr = a3, y_hat_bsm = a4\<rparr>, s1)
               = Inr (A', self')"
    unfolding test_loop_Cons_Inr by (elim exE conjE) (rule that)
  from assign_col_wf [OF c Cons.prems(2)] Cons.IH [OF rest] show ?case by simp
qed

lemma invert_bsm_rows:
  assumes rowsp: "\<forall>m. length (rows (inverse_transform ts m)) = length (rows m)"
    and nf: "0 < ncols (data_y ts)"
  shows "invert_bsm ts n (ncols (data_y ts)) is a = Inr a' \<Longrightarrow> wf_array2 a \<Longrightarrow> ncols a = n
     \<Longrightarrow> distinct is \<Longrightarrow> \<forall>i \<in> set is. i < length (rows a) \<Longrightarrow>
       wf_array2 a' \<and> ncols a' = n \<and> length (rows a') = length (rows a)
     \<and> (\<forall>j < length (rows a).
           rows a' ! j = (if j \<in> set is then reconstruct_transform_extract ts (rows a ! j)
                          else rows a ! j))"
proof (induction "is" arbitrary: a)
  case Nil
  then show ?case by simp
next
  case (Cons i "is")
  let ?nf = "ncols (data_y ts)"
  from Cons.prems(1) obtain d r a1 where
    d: "set_col_last (np_zeros n ?nf) (rows a ! i) = Inr d"
    and r: "col_last (inverse_transform ts d) = Inr r"
    and a1: "assign_row a i r = Inr a1"
    and rest: "invert_bsm ts n ?nf is a1 = Inr a'"
    by (auto simp: ebind_Inr_iff)
  have i: "i < length (rows a)" using Cons.prems(5) by simp
  then have li: "length (rows a ! i) = n"
    using Cons.prems(2,3) by (simp add: wf_array2_def)
  have d': "d = embed_target ?nf (rows a ! i)"
    using d set_col_last_zeros [OF nf, of "rows a ! i"] li by simp
  have r': "r = reconstruct_transform_extract ts (rows a ! i)"
    using r d' by (simp add: col_last_def reconstruct_transform_extract_def split: if_splits)
  have lr: "length r = n"
    using r' li rowsp by (simp add: reconstruct_transform_extract_def embed_target_def)
  have a1': "a1 = a\<lparr>rows := (rows a)[i := r]\<rparr>"
    using a1 i lr Cons.prems(3) by (simp add: assign_row_def np_broadcast_same)
  have wf1: "wf_array2 a1"
    using Cons.prems(2,3) lr a1' by (auto simp: wf_array2_def dest!: set_update_subset_insert [THEN subsetD])
  have n1: "ncols a1 = n" using a1' Cons.prems(3) by simp
  have l1: "length (rows a1) = length (rows a)" using a1' by simp
  have ih: "wf_array2 a' \<and> ncols a' = n \<and> length (rows a') = length (rows a1)
     \<and> (\<forall>j < length (rows a1).
           rows a' ! j = (if j \<in> set is then reconstruct_transform_extract ts (rows a1 ! j)
                          else rows a1 ! j))"
    using Cons.IH [OF rest wf1 n1] Cons.prems(4,5) l1 by simp
  have "\<forall>j < length (rows a).
           rows a' ! j = (if j \<in> set (i # is) then reconstruct_transform_extract ts (rows a ! j)
                          else rows a ! j)"
  proof (intro allI impI)
    fix j assume j: "j < length (rows a)"
    show "rows a' ! j = (if j \<in> set (i # is) then reconstruct_transform_extract ts (rows a ! j)
                          else rows a ! j)"
    proof (cases "j = i")
      case True
      then have "j \<notin> set is" using Cons.prems(4) by simp
      then show ?thesis using ih j l1 True a1' r' by simp
    next
      case False
      then show ?thesis using ih j l1 a1' by simp
    qed
  qed
  with ih l1 show ?case by simp
qed

text \<open>
  C9. When \<open>test\<close> returns, the dataset scales and inversion is requested, each returned
  series is the reconstruct-transform-extract image of the series the loop produced: the
  truths, the ensemble predictions, the combiner predictions and every row of the
  base-model predictions. The inverse transform is a parameter that keeps the number of
  rows, as an \<open>N \<times> F\<close> to \<open>N \<times> F\<close> map does.
\<close>

theorem test_inverse_transform_pattern:
  assumes t: "test env junk (prov, self) = Inr (res, prov', self')"
    and g: "get_data_provider (Data env) prov (configs self) ''test'' True
              = Inr ((ts, ld), prov')"
    and need: "scale (the_obj ts)" "inverse_cfg (configs self)"
    and rowsp: "\<forall>m. length (rows (inverse_transform (the_obj ts) m)) = length (rows m)"
  shows "\<exists>y A.
           slice_col_last (seq_len (configs self)) (data_y (the_obj ts)) = Inr y
         \<and> test_loop env (the_obj ld) 0 (loader_batches env (the_obj ld))
              (test_arrays0 junk (cbm_basemodels env (combiner_model self)) y, self)
              = Inr (A, self')
         \<and> res_y res = reconstruct_transform_extract (the_obj ts) y
         \<and> res_tabe_pred res = reconstruct_transform_extract (the_obj ts) (tabe_pred A)
         \<and> res_y_hat_cbm res = reconstruct_transform_extract (the_obj ts) (y_hat_cbm_arr A)
         \<and> length (rows (res_y_hat_bsm res)) = length (rows (y_hat_bsm A))
         \<and> (\<forall>i < length (rows (y_hat_bsm A)).
               rows (res_y_hat_bsm res) ! i
                 = reconstruct_transform_extract (the_obj ts) (rows (y_hat_bsm A) ! i))"
proof -
  let ?ts = "the_obj ts"
  let ?nf = "ncols (data_y ?ts)"
  let ?nb = "cbm_basemodels env (combiner_model self)"
  from test_Inr [OF t] g need obtain y A where
    y: "slice_col_last (seq_len (configs self)) (data_y ?ts) = Inr y"
    and l: "test_loop env (the_obj ld) 0 (loader_batches env (the_obj ld)) (test_arrays0 junk ?nb y, self)
              = Inr (A, self')"
    and i: "test_invert ?ts y A
              = Inr (res_y res, res_tabe_pred res, res_y_hat_cbm res, res_y_hat_bsm res)"
    by auto
  have nf: "0 < ?nf" using slice_col_last_Inr [OF y] by simp
  have len: "length (tabe_pred A) = length y" "length (y_hat_cbm_arr A) = length y"
    using test_loop_arrays [OF l] by (simp_all add: test_arrays0_lengths)
  have bsm0: "wf_array2 (y_hat_bsm (test_arrays0 junk ?nb y))"
             "ncols (y_hat_bsm (test_arrays0 junk ?nb y)) = length y"
    by (simp_all add: test_arrays0_def wf_np_empty2)
  have bsm: "wf_array2 (y_hat_bsm A)" "ncols (y_hat_bsm A) = length y"
    using test_loop_bsm [OF l bsm0(1)] bsm0(2) by simp_all
  from test_invert_Inr [OF i] obtain d1 d2 d3 where
    d: "set_col_last (np_zeros (length y) ?nf) y = Inr d1"
       "set_col_last (np_zeros (length y) ?nf) (tabe_pred A) = Inr d2"
       "set_col_last (np_zeros (length y) ?nf) (y_hat_cbm_arr A) = Inr d3"
    and c: "col_last (inverse_transform ?ts d1) = Inr (res_y res)"
       "col_last (inverse_transform ?ts d2) = Inr (res_tabe_pred res)"
       "col_last (inverse_transform ?ts d3) = Inr (res_y_hat_cbm res)"
    and b: "invert_bsm ?ts (length (res_y res)) ?nf
              [0..<length (rows (y_hat_bsm A))] (y_hat_bsm A) = Inr (res_y_hat_bsm res)"
    by (elim exE conjE) (rule that)
  have d': "d1 = embed_target ?nf y" "d2 = embed_target ?nf (tabe_pred A)"
           "d3 = embed_target ?nf (y_hat_cbm_arr A)"
    using d set_col_last_zeros [OF nf, of y] set_col_last_zeros [OF nf, of "tabe_pred A"]
      set_col_last_zeros [OF nf, of "y_hat_cbm_arr A"] len by simp_all
  have r: "res_y res = reconstruct_transform_extract ?ts y"
          "res_tabe_pred res = reconstruct_transform_extract ?ts (tabe_pred A)"
          "res_y_hat_cbm res = reconstruct_transform_extract ?ts (y_hat_cbm_arr A)"
    using c d' by (simp_all add: col_last_def reconstruct_transform_extract_def split: if_splits)
  have ly: "length (res_y res) = length y"
    using r(1) rowsp by (simp add: reconstruct_transform_extract_def embed_target_def)
  have "wf_array2 (res_y_hat_bsm res) \<and> ncols (res_y_hat_bsm res) = length (res_y res)
      \<and> length (rows (res_y_hat_bsm res)) = length (rows (y_hat_bsm A))
      \<and> (\<forall>j < length (rows (y_hat_bsm A)).
           rows (res_y_hat_bsm res) ! j
             = (if j \<in> set [0..<length (rows (y_hat_bsm A))]
                then reconstruct_transform_extract ?ts (rows (y_hat_bsm A) ! j)
                else rows (y_hat_bsm A) ! j))"
    by (rule invert_bsm_rows [OF rowsp nf b bsm(1)]) (simp_all add: bsm(2) ly)
  then have rb: "length (rows (res_y_hat_bsm res)) = length (rows (y_hat_bsm A))"
    "\<forall>i < length (rows (y_hat_bsm A)).
        rows (res_y_hat_bsm res) ! i
          = reconstruct_transform_extract ?ts (rows (y_hat_bsm A) ! i)"
    by simp_all
  show ?thesis
    using y l r rb by (intro exI [of _ y] exI [of _ A]) simp
qed

lemma demo_rowsp:
  "\<forall>m. length (rows (inverse_transform (the_obj (0, demo_dataset)) m)) = length (rows m)"
  by (simp add: the_obj_def demo_dataset_def)

theorem test_inverse_transform_pattern_witness:
  "res_y demo_result = reconstruct_transform_extract demo_dataset [20, 30]
   \<and> res_tabe_pred demo_result = reconstruct_transform_extract demo_dataset [1, 2]
   \<and> res_y_hat_cbm demo_result = reconstruct_transform_extract demo_dataset [1, 2]
   \<and> rows (res_y_hat_bsm demo_result) ! 0 = reconstruct_transform_extract demo_dataset [1, 2]
   \<and> rows (res_y_hat_bsm demo_result) ! 1 = reconstruct_transform_extract demo_dataset [2, 3]
   \<and> res_y demo_result = [41, 61]
   \<and> embed_target (ncols (data_y demo_dataset)) [20, 30 :: int]
        = \<lparr>ncols = 2, rows = [[0, 20], [0, 30]]\<rparr>"
proof -
  have o: "the_obj (0, demo_dataset) = demo_dataset"
    by (simp add: the_obj_def)
  have s: "scale (the_obj (0, demo_dataset))"
    by (simp add: o demo_need_to_invert(1))
  have e: "embed_target (ncols (data_y demo_dataset)) [20, 30 :: int]
        = \<lparr>ncols = 2, rows = [[0, 20], [0, 30]]\<rparr>"
    by (simp add: embed_target_def demo_dataset_def numeral_2_eq_2)
  have v: "res_y demo_result = [41, 61]"
    by (simp add: demo_result_def)
  have g: "get_data_provider (Data demo_env) empty_provider (configs (trained_model None))
             ''test'' True
           = Inr (((0, demo_dataset), (Suc 0, demo_loader)), demo_provider ''test_stb'')"
    using demo_gdp_trained [of None "''test''"] by (simp add: cache_key_def)
  from test_inverse_transform_pattern [OF demo_test g s demo_need_to_invert(2) demo_rowsp]
  obtain y A where
    y: "slice_col_last (seq_len (configs (trained_model None)))
          (data_y (the_obj (0, demo_dataset))) = Inr y"
    and l: "test_loop demo_env (the_obj (Suc 0, demo_loader)) 0 (loader_batches demo_env (the_obj (Suc 0, demo_loader)))
              (test_arrays0 demo_junk
                 (cbm_basemodels demo_env (combiner_model (trained_model None))) y,
               trained_model None) = Inr (A, tested_model)"
    and r: "res_y demo_result = reconstruct_transform_extract (the_obj (0, demo_dataset)) y"
      "res_tabe_pred demo_result
         = reconstruct_transform_extract (the_obj (0, demo_dataset)) (tabe_pred A)"
      "res_y_hat_cbm demo_result
         = reconstruct_transform_extract (the_obj (0, demo_dataset)) (y_hat_cbm_arr A)"
      "length (rows (res_y_hat_bsm demo_result)) = length (rows (y_hat_bsm A))"
      "\<forall>i < length (rows (y_hat_bsm A)).
         rows (res_y_hat_bsm demo_result) ! i
           = reconstruct_transform_extract (the_obj (0, demo_dataset)) (rows (y_hat_bsm A) ! i)"
    by (elim exE conjE) (rule that)
  have y': "y = [20, 30]"
    using y by (simp add: demo_slice_trained)
  have A': "A = demo_arrays"
    using l unfolding y' demo_loader_batches demo_env_fields(5) trained_model_fields(2)
      demo_test_loop by simp
  have b: "rows (y_hat_bsm demo_arrays) = [[1, 2], [2, 3]]"
          "tabe_pred demo_arrays = [1, 2]" "y_hat_cbm_arr demo_arrays = [1, 2]"
    by (simp_all add: demo_arrays_def)
  have r0: "rows (res_y_hat_bsm demo_result) ! 0
              = reconstruct_transform_extract demo_dataset [1, 2]"
    using r(5) [rule_format, of 0] by (simp add: A' b o)
  have r1: "rows (res_y_hat_bsm demo_result) ! 1
              = reconstruct_transform_extract demo_dataset [2, 3]"
    using r(5) [rule_format, of 1] by (simp add: A' b o)
  show ?thesis
    using r(1,2,3) r0 r1 e v unfolding y' A' b o by simp
qed

lemma short_env_fields:
  "Data short_env = Data demo_env"
  "loader_batches short_env = loader_batches demo_env"
  "cbm_train short_env = (\<lambda>c. c)"
  "cbm_proceed_onestep short_env = demo_cbm_step"
  "adj_train short_env = (\<lambda>a y yc. ([], a))"
  by (simp_all add: short_env_def demo_env_def)

lemma short_train_loop:
  "train_loop short_env (the_obj (Suc 0, demo_loader)) 0
     [demo_window [1, 20], demo_window [2, 30]] ([j0, j1], c)
     = Inr ([1, 2], Suc (Suc c))"
  by (simp add: short_env_fields demo_cbm_step_def demo_window_def assign_elem_def
        fetch_batch_default [OF demo_loader_collate])

lemma np_empty_like_2: "np_empty_like junk [a, b] = [junk 0, junk (Suc 0)]"
  by (simp add: np_empty_like_def upt_2)

lemma demo_train_adj:
  "train demo_env junk (empty_provider, demo_model (Some a))
     = Inr (demo_provider ''ensemble_train_stb'',
            \<lparr>configs = demo_configs, combiner_model = 2, adjuster_model = Some a,
             y_hat = Some [1, 2], truths = Some [20, 30], y_hat_cbm = Some [1, 2]\<rparr>)"
  unfolding train_def
  by (simp add: demo_gdp demo_slice demo_loader_batches np_empty_like_2 demo_train_loop
        cache_key_def demo_env_fields(3,6) demo_model_fields(2,3) del: train_loop.simps)
     (simp add: demo_model_def init_def numeral_2_eq_2)

lemma short_train:
  "train short_env junk (empty_provider, demo_model (Some a))
     = Inr (demo_provider ''ensemble_train_stb'',
            \<lparr>configs = demo_configs, combiner_model = 2, adjuster_model = Some a,
             y_hat = Some [], truths = Some [20, 30], y_hat_cbm = Some [1, 2]\<rparr>)"
  unfolding train_def
  by (simp add: short_env_fields(1,2) demo_gdp demo_slice demo_loader_batches np_empty_like_2
        short_train_loop cache_key_def short_env_fields(3,5) demo_model_fields(2,3)
        del: train_loop.simps)
     (simp add: demo_model_def init_def numeral_2_eq_2)

text \<open>
  C3, as stated, fails for \<open>train\<close>: the ensemble series is whatever the adjuster's
  batch training returns. With an adjuster that returns an empty series, \<open>train\<close>
  completes with two truths, two combiner predictions and no ensemble prediction.
\<close>

theorem history_length_counterexample:
  "map_sum id (history_aligned \<circ> snd)
     (train short_env demo_train_junk (empty_provider, demo_model (Some 0))) = Inr False
   \<and> map_sum id (y_hat \<circ> snd)
     (train short_env demo_train_junk (empty_provider, demo_model (Some 0))) = Inr (Some [])
   \<and> map_sum id (truths \<circ> snd)
     (train short_env demo_train_junk (empty_provider, demo_model (Some 0))) = Inr (Some [20, 30])"
  by (simp add: short_train history_aligned_def)

text \<open>
  C3, amended. After a completed \<open>train\<close> the truths and the combiner series always
  have equal length, and the ensemble series is the combiner series itself when there is
  no adjuster and otherwise what the adjuster's \<open>train\<close> returned for the two: all
  three have equal length provided that adjuster returns a series as long as the combiner
  series it is given. Every completed \<open>proceed_onestep\<close> appends
  exactly one entry to each of the three series, so it keeps equal lengths equal, and so
  does every completed \<open>test\<close>.
\<close>

theorem history_lengths:
  "(train env junk (prov, self) = Inr (prov1, self1) \<longrightarrow>
      (\<exists>t c h.
         truths self1 = Some t \<and> y_hat_cbm self1 = Some c \<and> y_hat self1 = Some h
       \<and> length t = length c
       \<and> h = (case adjuster_model self of None \<Rightarrow> c
                | Some a \<Rightarrow> fst (adj_train env a t c)))
    \<and> ((\<forall>a y c. adjuster_model self = Some a \<longrightarrow>
            length (fst (adj_train env a y c)) = length c)
         \<longrightarrow> history_aligned self1))
   \<and> (proceed_onestep env self b training = Inr (r, self2) \<longrightarrow>
        (\<exists>ht h hc y p pc.
           truths self = Some ht \<and> y_hat self = Some h \<and> y_hat_cbm self = Some hc
         \<and> truths self2 = Some (ht @ [y]) \<and> y_hat self2 = Some (h @ [p])
         \<and> y_hat_cbm self2 = Some (hc @ [pc]))
      \<and> (history_aligned self \<longrightarrow> history_aligned self2))
   \<and> (test env tjunk (prov, self) = Inr (res, prov3, self3) \<and> history_aligned self
        \<longrightarrow> history_aligned self3)"
proof (intro conjI impI)
  assume "train env junk (prov, self) = Inr (prov1, self1)"
  from train_Inr [OF this] obtain ds dl y arr c2 where
    "get_data_provider (Data env) prov (configs self) ''ensemble_train'' True
       = Inr ((ds, dl), prov1)"
    "slice_col_last (seq_len (configs self)) (data_y (the_obj ds)) = Inr y"
    "length y = length (loader_batches env (the_obj dl))"
    "train_loop env (the_obj dl) 0 (loader_batches env (the_obj dl))
       (np_empty_like junk y, cbm_train env (combiner_model self)) = Inr (arr, c2)"
    and la: "length arr = length y"
    and s1: "self1 = self\<lparr>combiner_model := c2,
                adjuster_model :=
                  (case adjuster_model self of None \<Rightarrow> None
                   | Some a \<Rightarrow> Some (snd (adj_train env a y arr))),
                truths := Some y,
                y_hat := Some (case adjuster_model self of None \<Rightarrow> arr
                               | Some a \<Rightarrow> fst (adj_train env a y arr)),
                y_hat_cbm := Some arr\<rparr>"
    by (elim exE conjE) (rule that)
  then show "\<exists>t c h.
         truths self1 = Some t \<and> y_hat_cbm self1 = Some c \<and> y_hat self1 = Some h
       \<and> length t = length c
       \<and> h = (case adjuster_model self of None \<Rightarrow> c
                | Some a \<Rightarrow> fst (adj_train env a t c))"
    by - (rule exI [of _ y], rule exI [of _ arr], rule exI, simp)
next
  assume r: "train env junk (prov, self) = Inr (prov1, self1)"
    and p: "\<forall>a y c. adjuster_model self = Some a \<longrightarrow>
              length (fst (adj_train env a y c)) = length c"
  from train_Inr [OF r] p
  show "history_aligned self1"
    by (auto simp: history_aligned_def split: option.splits)
next
  assume s: "proceed_onestep env self b training = Inr (r, self2)"
  obtain p_tabe p_adj p_cbm p_bsm where r: "r = (p_tabe, p_adj, p_cbm, p_bsm)"
    by (cases r) auto
  from proceed_onestep_history [OF s [unfolded r]] obtain y ht h hc where
    st: "truths self = Some ht" "y_hat self = Some h" "y_hat_cbm self = Some hc"
        "truths self2 = Some (ht @ [y])" "y_hat self2 = Some (h @ [p_tabe])"
        "y_hat_cbm self2 = Some (hc @ [p_cbm])"
    by (elim exE conjE) (rule that)
  then show "\<exists>ht h hc y p pc.
           truths self = Some ht \<and> y_hat self = Some h \<and> y_hat_cbm self = Some hc
         \<and> truths self2 = Some (ht @ [y]) \<and> y_hat self2 = Some (h @ [p])
         \<and> y_hat_cbm self2 = Some (hc @ [pc])"
    by (intro exI [of _ ht] exI [of _ h] exI [of _ hc] exI [of _ y] exI [of _ p_tabe]
          exI [of _ p_cbm]) simp
  assume "history_aligned self"
  with st show "history_aligned self2"
    by (simp add: history_aligned_def)
next
  assume a: "test env tjunk (prov, self) = Inr (res, prov3, self3) \<and> history_aligned self"
  from test_Inr [OF a [THEN conjunct1]] obtain ld y A where
    l: "test_loop env (the_obj ld) 0 (loader_batches env (the_obj ld))
          (test_arrays0 tjunk (cbm_basemodels env (combiner_model self)) y, self)
          = Inr (A, self3)"
    by (elim exE conjE) (rule that)
  from test_loop_history [OF l] obtain py pt pc where
    "length py = length (loader_batches env (the_obj ld))"
    "length pt = length (loader_batches env (the_obj ld))"
    "length pc = length (loader_batches env (the_obj ld))"
    "truths self3 = map_option (\<lambda>h. h @ py) (truths self)"
    "y_hat self3 = map_option (\<lambda>h. h @ pt) (y_hat self)"
    "y_hat_cbm self3 = map_option (\<lambda>h. h @ pc) (y_hat_cbm self)"
    by (elim exE conjE) (rule that)
  with a [THEN conjunct2] show "history_aligned self3"
    by (auto simp: history_aligned_def split: option.splits)
qed

lemma demo_train_adj0:
  "train demo_env demo_train_junk (empty_provider, demo_model (Some 0))
     = Inr (demo_provider ''ensemble_train_stb'', trained_model (Some 0))"
  by (simp add: demo_train_adj trained_model_def)

lemma demo_step_adj5:
  "proceed_onestep demo_env (trained_model (Some 5))
     (demo_window [3, 4]\<lparr>batch_y := [[[3, 99]]]\<rparr>) True
     = Inr ((8, 8, 3, [3, 4]), stepped_model)"
  using demo_proceed_onestep [of 5 99] by (simp add: stepped_model_def)

lemma demo_adj_train_length:
  "\<forall>a y c. adjuster_model (demo_model (Some 0)) = Some a \<longrightarrow>
     length (fst (adj_train demo_env a y c)) = length c"
  by (simp add: demo_env_fields)

lemma trained_aligned: "history_aligned (trained_model adj)"
  by (simp add: history_aligned_def trained_model_fields)

theorem history_lengths_witness:
  "train demo_env demo_train_junk (empty_provider, demo_model (Some 0))
     = Inr (demo_provider ''ensemble_train_stb'', trained_model (Some 0))
   \<and> history_aligned (trained_model (Some 0))
   \<and> proceed_onestep demo_env (trained_model (Some 5))
        (demo_window [3, 4]\<lparr>batch_y := [[[3, 99]]]\<rparr>) True
        = Inr ((8, 8, 3, [3, 4]), stepped_model)
   \<and> history_aligned stepped_model
   \<and> test demo_env demo_junk (empty_provider, trained_model None)
        = Inr (demo_result, demo_provider ''test_stb'', tested_model)
   \<and> history_aligned tested_model"
proof -
  have 1: "history_aligned (trained_model (Some 0))"
    using history_lengths [THEN conjunct1, rule_format, OF demo_train_adj0,
            THEN conjunct2, THEN mp, OF demo_adj_train_length] .
  have 2: "history_aligned stepped_model"
    using history_lengths [THEN conjunct2, THEN conjunct1, rule_format, OF demo_step_adj5,
            THEN conjunct2, rule_format, OF trained_aligned] .
  have 3: "history_aligned tested_model"
    using history_lengths [THEN conjunct2, THEN conjunct2, rule_format,
            OF conjI [OF demo_test trained_aligned]] .
  show ?thesis
    using 1 2 3 demo_train_adj0 demo_step_adj5 demo_test by simp
qed

lemma demo_train_none:
  "train demo_env demo_train_junk (empty_provider, demo_model None)
     = Inr (demo_provider ''ensemble_train_stb'', trained_model None)"
  by (simp add: demo_train trained_model_def)

theorem adjuster_bypass_witness:
  "train demo_env demo_train_junk (empty_provider, demo_model None)
     = Inr (demo_provider ''ensemble_train_stb'', trained_model None)
   \<and> y_hat (trained_model None) = y_hat_cbm (trained_model None)
   \<and> proceed_onestep demo_env (trained_model None) (demo_window [1, 20]) True
     = Inr ((1, 1, 1, [1, 2]),
          \<lparr>configs = demo_configs, combiner_model = 3, adjuster_model = None,
           y_hat = Some [1, 2, 1], truths = Some [20, 30, 20], y_hat_cbm = Some [1, 2, 1]\<rparr>)
   \<and> test demo_env demo_junk (empty_provider, trained_model None)
        = Inr (demo_result, demo_provider ''test_stb'', tested_model)
   \<and> res_tabe_pred demo_result = res_y_hat_cbm demo_result
   \<and> y_hat tested_model = y_hat_cbm tested_model"
proof -
  have n: "adjuster_model (demo_model None) = (None :: int option)"
          "adjuster_model (trained_model None) = (None :: int option)"
    by (simp_all add: demo_model_fields trained_model_fields)
  have 1: "y_hat (trained_model None) = y_hat_cbm (trained_model None)"
    using adjuster_bypass [OF n(1), THEN conjunct1, rule_format, OF demo_train_none] by simp
  from adjuster_bypass [OF n(2), THEN conjunct2, THEN conjunct2, rule_format, OF demo_test]
  obtain ts ld y ps where
    g: "get_data_provider (Data demo_env) empty_provider (configs (trained_model None))
          ''test'' True = Inr ((ts, ld), demo_provider ''test_stb'')"
    and y: "slice_col_last (seq_len (configs (trained_model None))) (data_y (the_obj ts)) = Inr y"
    and ps: "length ps = length (loader_batches demo_env (the_obj ld))"
    and h: "y_hat tested_model = map_option (\<lambda>h. h @ ps) (y_hat (trained_model None))"
      "y_hat_cbm tested_model = map_option (\<lambda>h. h @ ps) (y_hat_cbm (trained_model None))"
      "\<not> (scale (the_obj ts) \<and> inverse_cfg (configs (trained_model None))) \<longrightarrow>
         take (length ps) (res_tabe_pred demo_result)
           = take (length ps) (res_y_hat_cbm demo_result)"
    and e: "length ps = length y \<longrightarrow> res_tabe_pred demo_result = res_y_hat_cbm demo_result"
    by (elim exE conjE) (rule that)
  have "ts = (0, demo_dataset)" "ld = (Suc 0, demo_loader)"
    using g demo_gdp_trained [of None "''test''"] by simp_all
  then have "length ps = length y"
    using y ps by (auto simp: demo_slice_trained demo_loader_batches)
  with e have 3: "res_tabe_pred demo_result = res_y_hat_cbm demo_result" by simp
  have 4: "y_hat tested_model = y_hat_cbm tested_model"
    by (simp add: tested_model_def)
  show ?thesis
    using 1 3 4 demo_train_none demo_step1 demo_test by simp
qed

lemma last_py_slice_from:
  "py_slice_from k xs \<noteq> [] \<Longrightarrow> last (py_slice_from k xs) = last xs"
  by (auto simp: py_slice_from_def split: if_splits)

lemma py_slice_from_nonempty: "py_slice_from k xs \<noteq> [] \<Longrightarrow> xs \<noteq> []"
  by (auto simp: py_slice_from_def split: if_splits)

text \<open>
  C6. In \<open>train\<close> and in \<open>test\<close> the truths series is the last feature of
  \<open>data_y\<close> from row \<open>seq_len\<close> on, through the last row of \<open>data_y\<close> (for a
  negative \<open>seq_len\<close>, the last \<open>-seq_len\<close> rows): no truth of a step beyond the data
  is in it, and in \<open>train\<close> it has one entry per loader step. \<open>train\<close> stores it as
  \<open>truths\<close>; \<open>test\<close> returns it, inverse-transformed when the dataset scales and
  inversion is requested.
\<close>

theorem truths_are_target_column:
  "(train env junk (prov, self) = Inr (prov1, self1) \<longrightarrow>
      (\<exists>ds ld ys.
         get_data_provider (Data env) prov (configs self) ''ensemble_train'' True
           = Inr ((ds, ld), prov1)
       \<and> ys = py_slice_from (seq_len (configs self)) (map last (rows (data_y (the_obj ds))))
       \<and> truths self1 = Some ys
       \<and> length ys = length (loader_batches env (the_obj ld))
       \<and> (ys \<noteq> [] \<longrightarrow> last ys = last (last (rows (data_y (the_obj ds)))))))
   \<and> (test env tjunk (prov, self) = Inr (res, prov2, self2) \<longrightarrow>
      (\<exists>ts ld ys.
         get_data_provider (Data env) prov (configs self) ''test'' True
           = Inr ((ts, ld), prov2)
       \<and> ys = py_slice_from (seq_len (configs self)) (map last (rows (data_y (the_obj ts))))
       \<and> res_y res = (if scale (the_obj ts) \<and> inverse_cfg (configs self)
                       then reconstruct_transform_extract (the_obj ts) ys else ys)
       \<and> (ys \<noteq> [] \<longrightarrow> last ys = last (last (rows (data_y (the_obj ts)))))))"
proof (intro conjI impI)
  assume "train env junk (prov, self) = Inr (prov1, self1)"
  from train_Inr [OF this] obtain ds ld y where
    g: "get_data_provider (Data env) prov (configs self) ''ensemble_train'' True
          = Inr ((ds, ld), prov1)"
    and y: "slice_col_last (seq_len (configs self)) (data_y (the_obj ds)) = Inr y"
    and n: "length y = length (loader_batches env (the_obj ld))"
    and t: "truths self1 = Some y"
    by auto
  let ?ys = "py_slice_from (seq_len (configs self)) (map last (rows (data_y (the_obj ds))))"
  have e: "y = ?ys" using slice_col_last_Inr [OF y] by simp
  have l: "?ys \<noteq> [] \<longrightarrow> last ?ys = last (last (rows (data_y (the_obj ds))))"
  proof
    assume n: "?ys \<noteq> []"
    then have "rows (data_y (the_obj ds)) \<noteq> []"
      using py_slice_from_nonempty by fastforce
    with last_py_slice_from [OF n] show "last ?ys = last (last (rows (data_y (the_obj ds))))"
      by (simp add: last_map)
  qed
  show "\<exists>ds ld ys.
         get_data_provider (Data env) prov (configs self) ''ensemble_train'' True
           = Inr ((ds, ld), prov1)
       \<and> ys = py_slice_from (seq_len (configs self)) (map last (rows (data_y (the_obj ds))))
       \<and> truths self1 = Some ys
       \<and> length ys = length (loader_batches env (the_obj ld))
       \<and> (ys \<noteq> [] \<longrightarrow> last ys = last (last (rows (data_y (the_obj ds)))))"
    using g t e l n by (intro exI [of _ ds] exI [of _ ld] exI [of _ ?ys]) simp
next
  assume "test env tjunk (prov, self) = Inr (res, prov2, self2)"
  from test_Inr [OF this] obtain ts ld y A where
    g: "get_data_provider (Data env) prov (configs self) ''test'' True = Inr ((ts, ld), prov2)"
    and y: "slice_col_last (seq_len (configs self)) (data_y (the_obj ts)) = Inr y"
    and i: "if scale (the_obj ts) \<and> inverse_cfg (configs self)
             then test_invert (the_obj ts) y A
                    = Inr (res_y res, res_tabe_pred res, res_y_hat_cbm res, res_y_hat_bsm res)
             else res_y res = y \<and> res_tabe_pred res = tabe_pred A
                \<and> res_y_hat_cbm res = y_hat_cbm_arr A \<and> res_y_hat_bsm res = y_hat_bsm A"
    by (elim exE conjE) (rule that)
  let ?ys = "py_slice_from (seq_len (configs self)) (map last (rows (data_y (the_obj ts))))"
  have e: "y = ?ys" and nf: "0 < ncols (data_y (the_obj ts))"
    using slice_col_last_Inr [OF y] by simp_all
  have l: "?ys \<noteq> [] \<longrightarrow> last ?ys = last (last (rows (data_y (the_obj ts))))"
  proof
    assume n: "?ys \<noteq> []"
    then have "rows (data_y (the_obj ts)) \<noteq> []"
      using py_slice_from_nonempty by fastforce
    with last_py_slice_from [OF n] show "last ?ys = last (last (rows (data_y (the_obj ts))))"
      by (simp add: last_map)
  qed
  have r: "res_y res = (if scale (the_obj ts) \<and> inverse_cfg (configs self)
                       then reconstruct_transform_extract (the_obj ts) y else y)"
  proof (cases "scale (the_obj ts) \<and> inverse_cfg (configs self)")
    case False
    with i show ?thesis by auto
  next
    case True
    with i have "test_invert (the_obj ts) y A
                    = Inr (res_y res, res_tabe_pred res, res_y_hat_cbm res, res_y_hat_bsm res)"
      by simp
    from test_invert_Inr [OF this] obtain d1 where
      "set_col_last (np_zeros (length y) (ncols (data_y (the_obj ts)))) y = Inr d1"
      "col_last (inverse_transform (the_obj ts) d1) = Inr (res_y res)"
      by auto
    then show ?thesis using True set_col_last_zeros [OF nf, of y]
      by (simp add: col_last_def reconstruct_transform_extract_def split: if_splits)
  qed
  show "\<exists>ts ld ys.
         get_data_provider (Data env) prov (configs self) ''test'' True
           = Inr ((ts, ld), prov2)
       \<and> ys = py_slice_from (seq_len (configs self)) (map last (rows (data_y (the_obj ts))))
       \<and> res_y res = (if scale (the_obj ts) \<and> inverse_cfg (configs self)
                       then reconstruct_transform_extract (the_obj ts) ys else ys)
       \<and> (ys \<noteq> [] \<longrightarrow> last ys = last (last (rows (data_y (the_obj ts)))))"
    using g r e l by (intro exI [of _ ts] exI [of _ ld] exI [of _ ?ys]) simp
qed

theorem truths_are_target_column_witness:
  "train demo_env demo_train_junk (empty_provider, demo_model None)
     = Inr (demo_provider ''ensemble_train_stb'', trained_model None)
   \<and> truths (trained_model None)
       = Some (py_slice_from 1 (map last (rows (data_y demo_dataset))))
   \<and> py_slice_from 1 (map last (rows (data_y demo_dataset))) = [20, 30]
   \<and> test demo_env demo_junk (empty_provider, trained_model None)
        = Inr (demo_result, demo_provider ''test_stb'', tested_model)
   \<and> res_y demo_result = reconstruct_transform_extract demo_dataset [20, 30]"
proof -
  have o: "the_obj (0, demo_dataset) = demo_dataset"
    by (simp add: the_obj_def)
  have c: "seq_len (configs (demo_model None)) = 1" "seq_len (configs (trained_model None)) = 1"
    by (simp_all add: demo_model_fields trained_model_fields demo_configs_def)
  have v: "py_slice_from 1 (map last (rows (data_y demo_dataset))) = [20, 30]"
    by (simp add: py_slice_from_def demo_dataset_def)
  from truths_are_target_column [THEN conjunct1, rule_format, OF demo_train_none]
  obtain ds ld ys where
    "get_data_provider (Data demo_env) empty_provider (configs (demo_model None))
       ''ensemble_train'' True = Inr ((ds, ld), demo_provider ''ensemble_train_stb'')"
    "ys = py_slice_from (seq_len (configs (demo_model None)))
            (map last (rows (data_y (the_obj ds))))"
    "truths (trained_model None) = Some ys"
    "length ys = length (loader_batches demo_env (the_obj ld))"
    "ys \<noteq> [] \<longrightarrow> last ys = last (last (rows (data_y (the_obj ds))))"
    by (elim exE conjE) (rule that)
  then have 1: "truths (trained_model None)
       = Some (py_slice_from 1 (map last (rows (data_y demo_dataset))))"
    using demo_gdp [of None "''ensemble_train''"] by (auto simp: o c)
  from truths_are_target_column [THEN conjunct2, rule_format, OF demo_test]
  obtain ts ld' ys' where
    "get_data_provider (Data demo_env) empty_provider (configs (trained_model None))
       ''test'' True = Inr ((ts, ld'), demo_provider ''test_stb'')"
    "ys' = py_slice_from (seq_len (configs (trained_model None)))
            (map last (rows (data_y (the_obj ts))))"
    "res_y demo_result
       = (if scale (the_obj ts) \<and> inverse_cfg (configs (trained_model None))
          then reconstruct_transform_extract (the_obj ts) ys' else ys')"
    "ys' \<noteq> [] \<longrightarrow> last ys' = last (last (rows (data_y (the_obj ts))))"
    by (elim exE conjE) (rule that)
  then have 2: "res_y demo_result = reconstruct_transform_extract demo_dataset [20, 30]"
    using demo_gdp_trained [of None "''test''"] demo_need_to_invert by (auto simp: o c v)
  show ?thesis
    using 1 2 v demo_train_none demo_test by simp
qed

end
